theory Spec2Isabelle
  imports Main
begin

text \<open>
  A model of the scorekeeping application of \<open>InternalDraftLeague.js\<close>: the CSV
  utilities, the \<open>PersistenceManager\<close> over the browser's \<open>localStorage\<close>, the
  \<open>DataManager\<close> with its dirty flag, the persisted \<open>TimerManager\<close>, and the methods of
  \<open>ScorekeeperApp\<close> that keep the point log, the running scores and the score table.
  Every method takes the state of the browser and of the application and returns the
  new one. Names follow the source; the fields of the game state carry the prefix
  \<open>gs_\<close>, those of the roster cache \<open>tc_\<close> and the slots of the store \<open>ls_\<close>.
\<close>

section \<open>Possession marker (ABBA)\<close>

text \<open>
  \<open>ScorekeeperApp.computeAbbaForIndex\<close> reads the field \<open>abbaStart\<close> of the application
  and the index of a point. The field is a JavaScript string; anything other than
  \<open>F\<close> is read as \<open>M\<close>. The index is an array index or a row count, hence a natural
  number, on which \<open>Math.floor(adjusted / 2)\<close> is integer division.
\<close>

definition computeAbbaForIndex :: "string \<Rightarrow> nat \<Rightarrow> string" where
  "computeAbbaForIndex abbaStart index =
     (let start = (if abbaStart = ''F'' then ''F'' else ''M'');
          other = (if start = ''M'' then ''F'' else ''M'')
      in if index = 0 then start
         else (let adjusted = index - 1;
                   block = adjusted div 2
               in if block mod 2 = 0 then other else start))"

section \<open>Utilities\<close>

text \<open>
  A JavaScript string is modelled as a list of characters. The four characters the CSV
  code singles out are named here.
\<close>

abbreviation dquote :: char where "dquote \<equiv> CHR 0x22"
abbreviation comma :: char where "comma \<equiv> CHR 0x2C"
abbreviation LF :: char where "LF \<equiv> CHR 0x0A"
abbreviation CR :: char where "CR \<equiv> CHR 0x0D"

text \<open>\<open>Array.prototype.join\<close> with a separator.\<close>

fun join :: "string \<Rightarrow> string list \<Rightarrow> string" where
  "join sep [] = []"
| "join sep [x] = x"
| "join sep (x # y # ys) = x @ sep @ join sep (y # ys)"

text \<open>
  \<open>Utils.toCSVLine\<close>: a field matching \<open>/[",\n\r]/\<close> is wrapped in double quotes
  with every double quote doubled (\<open>s.replace(/"/g, '""')\<close>); the fields are joined by
  commas. The fields passed by the program are strings.
\<close>

definition needsQuoting :: "string \<Rightarrow> bool" where
  "needsQuoting s = list_ex (\<lambda>c. c = dquote \<or> c = comma \<or> c = LF \<or> c = CR) s"

definition doubleQuotes :: "string \<Rightarrow> string" where
  "doubleQuotes s = concat (map (\<lambda>c. if c = dquote then [dquote, dquote] else [c]) s)"

definition csvField :: "string \<Rightarrow> string" where
  "csvField s = (if needsQuoting s then [dquote] @ doubleQuotes s @ [dquote] else s)"

definition toCSVLine :: "string list \<Rightarrow> string" where
  "toCSVLine fields = join [comma] (map csvField fields)"

text \<open>
  \<open>Utils.parseCSV\<close>: the \<open>for\<close> loop over the text, with the rows finished so far, the
  current row, the current cell and the \<open>inQuotes\<close> flag. The loop looks one character
  ahead (\<open>next\<close>) and skips it after an escaped quote.
\<close>

fun parseCSV_loop ::
  "string \<Rightarrow> string list list \<Rightarrow> string list \<Rightarrow> string \<Rightarrow> bool
    \<Rightarrow> string list list \<times> string list \<times> string" where
  "parseCSV_loop [] rows row cell inQuotes = (rows, row, cell)"
| "parseCSV_loop (c # rest) rows row cell inQuotes =
     (if c = dquote then
        (case rest of
           [] \<Rightarrow> parseCSV_loop rest rows row cell (\<not> inQuotes)
         | nxt # rest' \<Rightarrow>
             if inQuotes \<and> nxt = dquote
             then parseCSV_loop rest' rows row (cell @ [dquote]) inQuotes
             else parseCSV_loop rest rows row cell (\<not> inQuotes))
      else if c = comma \<and> \<not> inQuotes then
        parseCSV_loop rest rows (row @ [cell]) [] inQuotes
      else if (c = LF \<or> c = CR) \<and> \<not> inQuotes then
        (if cell \<noteq> [] \<or> length row > 0
         then parseCSV_loop rest (rows @ [row @ [cell]]) [] [] inQuotes
         else parseCSV_loop rest rows row cell inQuotes)
      else parseCSV_loop rest rows row (if c \<noteq> CR then cell @ [c] else cell) inQuotes)"

definition parseCSV :: "string \<Rightarrow> string list list" where
  "parseCSV text =
     (case parseCSV_loop text [] [] [] False of
        (rows, row, cell) \<Rightarrow>
          if cell \<noteq> [] \<or> length row > 0 then rows @ [row @ [cell]] else rows)"

text \<open>
  \<open>Number.prototype.toString\<close> on an integer (below \<open>10^21\<close> in absolute value, where
  JavaScript prints plain decimal digits), as \<open>Date.now().toString()\<close> uses it.
\<close>

definition digitChar :: "nat \<Rightarrow> char" where
  "digitChar d = ''0123456789'' ! d"

fun digitsOf :: "nat \<Rightarrow> string" where
  "digitsOf n = (if n < 10 then [digitChar n] else digitsOf (n div 10) @ [digitChar (n mod 10)])"

definition numberToString :: "int \<Rightarrow> string" where
  "numberToString n = (if n < 0 then CHR ''-'' # digitsOf (nat (- n)) else digitsOf (nat n))"


section \<open>Data model\<close>

text \<open>
  A score log entry, as \<open>createLogObject\<close> builds it, and the game state object, as
  \<open>loadGameState\<close>, \<open>resetGameState\<close> and \<open>autoSave\<close> build it. The default state has
  no \<open>abbaStart\<close> property, so that field is optional. Scores are counts; timestamps are
  milliseconds since the epoch (JavaScript numbers, exact for integers below \<open>2^53\<close>).
\<close>

record log_entry =
  scoreID :: string
  GameID :: string
  Time :: string
  Team :: string
  Score :: string
  Assist :: string

record game_state =
  gs_teamAScore :: nat
  gs_teamBScore :: nat
  gs_teamAName :: string
  gs_teamBName :: string
  gs_teamAPlayers :: string
  gs_teamBPlayers :: string
  gs_gameTime :: string
  gs_scoreLogs :: "log_entry list"
  gs_abbaStart :: "string option"
  gs_timestamp :: int

type_synonym teams = "(string \<times> string list) list"

record teams_cache =
  tc_data :: teams
  tc_timestamp :: int
  tc_expiresAt :: int

subsection \<open>The browser: localStorage, clock, page\<close>

text \<open>
  The keys of \<open>CONFIG.STORAGE_KEYS\<close> and the literal key \<open>timerRemainingTime\<close>. An
  \<open>item\<close> is a key together with the value the program stores under it: the game state,
  the roster cache, the timer's end time (\<open>null\<close> or the ISO text of an instant), its
  running flag, its remaining milliseconds (\<open>null\<close> or a number) and the time of the last
  save. \<open>localStorage\<close> holds at most one item per key. \<open>JSON.parse\<close> gives back what
  \<open>JSON.stringify\<close> was given for these values, so the model keeps the values and not
  their text.
\<close>

datatype storage_key =
  SCORE_LOGS | TIMER_END_TIME | TIMER_RUNNING | GAME_STATE | TEAMS_DATA | LAST_SAVE
  | TIMER_REMAINING_TIME

datatype item =
  GameStateItem game_state
  | TeamsDataItem teams_cache
  | TimerEndTimeItem "int option"
  | TimerRunningItem bool
  | TimerRemainingTimeItem "int option"
  | LastSaveItem int

fun key :: "item \<Rightarrow> storage_key" where
  "key (GameStateItem _) = GAME_STATE"
| "key (TeamsDataItem _) = TEAMS_DATA"
| "key (TimerEndTimeItem _) = TIMER_END_TIME"
| "key (TimerRunningItem _) = TIMER_RUNNING"
| "key (TimerRemainingTimeItem _) = TIMER_REMAINING_TIME"
| "key (LastSaveItem _) = LAST_SAVE"

record localStorage =
  ls_gameState :: "game_state option"
  ls_teamsData :: "teams_cache option"
  ls_timerEndTime :: "int option option"
  ls_timerRunning :: "bool option"
  ls_timerRemainingTime :: "int option option"
  ls_lastSave :: "int option"

text \<open>
  The page. A \<open>select\<close> element shows one of its options; assigning a value that is no
  option leaves nothing selected, and \<open>value\<close> then reads as the empty string. An element
  the page does not have is \<open>None\<close>: the program guards every access. A table row carries
  its \<open>data-score-id\<close> and the text of its seven cells. \<open>scorePopup\<close> holds the
  \<open>dataset.team\<close> of the popup, \<open>timerDisplay\<close> the text the timer shows and \<open>time\<close>
  the value of the time field.
\<close>

record select =
  options :: "string list"
  selected :: string

record row =
  data_score_id :: string
  cells :: "string list"

record document =
  teamA :: "select option"
  teamB :: "select option"
  teamAList :: "string option"
  teamBList :: "string option"
  time :: "string option"
  timerDisplay :: "string option"
  abbaStartSelect :: "select option"
  scoringTableBody :: "row list option"
  overlay :: bool
  scorePopup :: "string option option"

text \<open>
  What the program does to the store is recorded in a trace: every call of
  \<open>saveToStorage\<close> and of \<open>cleanupOldData\<close>, every \<open>localStorage.setItem\<close> with its
  outcome (\<open>False\<close>: it threw) and every \<open>localStorage.removeItem\<close>.
\<close>

datatype event =
  SaveToStorage storage_key
  | CleanupOldData
  | SetItem storage_key bool
  | RemoveItem storage_key

subsection \<open>The program's objects\<close>

record persistenceManager =
  lastSaveTime :: int

record dataManager =
  teamsData :: teams
  scoreLogs :: "log_entry list"
  gameState :: game_state
  isDirty :: bool

record timerManager =
  timerInterval :: bool
  isRunning :: bool
  endTime :: "int option"
  remainingTimeMs :: "int option"
  defaultMinutes :: int

text \<open>
  The whole state: the browser (the store with its quota, the length of an item's key and
  JSON text, the locale's date format, the trace, the page) and the application object
  with its managers. \<open>setItem\<close> throws when the store would grow beyond the quota.
  The clock is an argument of each operation: one handler reads one time.
\<close>

record world =
  localStorage :: localStorage
  quota :: nat
  jsonLength :: "item \<Rightarrow> nat"
  toLocaleString :: "int \<Rightarrow> string"
  trace :: "event list"
  document :: document
  persistenceManager :: persistenceManager
  dataManager :: dataManager
  timerManager :: timerManager
  teamAScore :: nat
  teamBScore :: nat
  currentEditID :: "string option"
  isRestoring :: bool
  abbaStart :: string

definition stored :: "localStorage \<Rightarrow> item list" where
  "stored ls =
     map GameStateItem (case ls_gameState ls of None \<Rightarrow> [] | Some v \<Rightarrow> [v])
     @ map TeamsDataItem (case ls_teamsData ls of None \<Rightarrow> [] | Some v \<Rightarrow> [v])
     @ map TimerEndTimeItem (case ls_timerEndTime ls of None \<Rightarrow> [] | Some v \<Rightarrow> [v])
     @ map TimerRunningItem (case ls_timerRunning ls of None \<Rightarrow> [] | Some v \<Rightarrow> [v])
     @ map TimerRemainingTimeItem (case ls_timerRemainingTime ls of None \<Rightarrow> [] | Some v \<Rightarrow> [v])
     @ map LastSaveItem (case ls_lastSave ls of None \<Rightarrow> [] | Some v \<Rightarrow> [v])"

definition usage :: "(item \<Rightarrow> nat) \<Rightarrow> localStorage \<Rightarrow> nat" where
  "usage len ls = sum_list (map len (stored ls))"

fun putItem :: "item \<Rightarrow> localStorage \<Rightarrow> localStorage" where
  "putItem (GameStateItem v) ls = ls\<lparr>ls_gameState := Some v\<rparr>"
| "putItem (TeamsDataItem v) ls = ls\<lparr>ls_teamsData := Some v\<rparr>"
| "putItem (TimerEndTimeItem v) ls = ls\<lparr>ls_timerEndTime := Some v\<rparr>"
| "putItem (TimerRunningItem v) ls = ls\<lparr>ls_timerRunning := Some v\<rparr>"
| "putItem (TimerRemainingTimeItem v) ls = ls\<lparr>ls_timerRemainingTime := Some v\<rparr>"
| "putItem (LastSaveItem v) ls = ls\<lparr>ls_lastSave := Some v\<rparr>"

fun dropItem :: "storage_key \<Rightarrow> localStorage \<Rightarrow> localStorage" where
  "dropItem GAME_STATE ls = ls\<lparr>ls_gameState := None\<rparr>"
| "dropItem TEAMS_DATA ls = ls\<lparr>ls_teamsData := None\<rparr>"
| "dropItem TIMER_END_TIME ls = ls\<lparr>ls_timerEndTime := None\<rparr>"
| "dropItem TIMER_RUNNING ls = ls\<lparr>ls_timerRunning := None\<rparr>"
| "dropItem TIMER_REMAINING_TIME ls = ls\<lparr>ls_timerRemainingTime := None\<rparr>"
| "dropItem LAST_SAVE ls = ls\<lparr>ls_lastSave := None\<rparr>"
| "dropItem SCORE_LOGS ls = ls"

text \<open>\<open>localStorage.setItem\<close> (the flag is \<open>False\<close> when it throws) and \<open>removeItem\<close>.\<close>

definition setItem :: "item \<Rightarrow> world \<Rightarrow> bool \<times> world" where
  "setItem it w =
     (let ls' = putItem it (localStorage w)
      in if usage (jsonLength w) ls' \<le> quota w
         then (True, w\<lparr>localStorage := ls', trace := trace w @ [SetItem (key it) True]\<rparr>)
         else (False, w\<lparr>trace := trace w @ [SetItem (key it) False]\<rparr>))"

definition removeItem :: "storage_key \<Rightarrow> world \<Rightarrow> world" where
  "removeItem k w =
     w\<lparr>localStorage := dropItem k (localStorage w), trace := trace w @ [RemoveItem k]\<rparr>"

section \<open>PersistenceManager\<close>

text \<open>
  \<open>cleanupOldData\<close>: removes the roster cache when it has expired and the game state
  when its (non-zero) timestamp is more than seven days old.
\<close>

definition cleanupOldData :: "int \<Rightarrow> world \<Rightarrow> world" where
  "cleanupOldData now w0 =
     (let w = w0\<lparr>trace := trace w0 @ [CleanupOldData]\<rparr>;
          w1 = (case ls_teamsData (localStorage w) of
                  None \<Rightarrow> w
                | Some cached \<Rightarrow> if now > tc_expiresAt cached then removeItem TEAMS_DATA w else w)
      in case ls_gameState (localStorage w1) of
           None \<Rightarrow> w1
         | Some saved \<Rightarrow>
             if gs_timestamp saved \<noteq> 0 \<and> now - gs_timestamp saved > 7 * 24 * 60 * 60 * 1000
             then removeItem GAME_STATE w1 else w1)"

text \<open>
  \<open>saveToStorage\<close>: the \<open>try\<close> block writes the item, sets \<open>lastSaveTime\<close> and writes
  the time of the save under \<open>lastSave\<close>; when either write throws, the \<open>catch\<close> block
  runs \<open>cleanupOldData\<close> and writes the item once more.
\<close>

definition saveToStorage_catch :: "int \<Rightarrow> item \<Rightarrow> world \<Rightarrow> bool \<times> world" where
  "saveToStorage_catch now it w = setItem it (cleanupOldData now w)"

definition saveToStorage :: "int \<Rightarrow> item \<Rightarrow> world \<Rightarrow> bool \<times> world" where
  "saveToStorage now it w0 =
     (let w = w0\<lparr>trace := trace w0 @ [SaveToStorage (key it)]\<rparr>;
          (written, w1) = setItem it w
      in if written then
           (let w2 = w1\<lparr>persistenceManager := (persistenceManager w1)\<lparr>lastSaveTime := now\<rparr>\<rparr>;
                (stamped, w3) = setItem (LastSaveItem now) w2
            in if stamped then (True, w3) else saveToStorage_catch now it w3)
         else saveToStorage_catch now it w1)"

text \<open>
  \<open>loadFromStorage\<close>: the stored value, or the fallback when the key is absent. The
  first argument selects the key's slot.
\<close>

definition loadFromStorage :: "(localStorage \<Rightarrow> 'a option) \<Rightarrow> 'a \<Rightarrow> world \<Rightarrow> 'a" where
  "loadFromStorage slot fallback w =
     (case slot (localStorage w) of None \<Rightarrow> fallback | Some v \<Rightarrow> v)"

definition saveGameState :: "int \<Rightarrow> game_state \<Rightarrow> world \<Rightarrow> bool \<times> world" where
  "saveGameState now gs w = saveToStorage now (GameStateItem (gs\<lparr>gs_timestamp := now\<rparr>)) w"

definition defaultState :: "int \<Rightarrow> game_state" where
  "defaultState now =
     \<lparr>gs_teamAScore = 0, gs_teamBScore = 0, gs_teamAName = [], gs_teamBName = [],
      gs_teamAPlayers = [], gs_teamBPlayers = [], gs_gameTime = [], gs_scoreLogs = [],
      gs_abbaStart = None, gs_timestamp = now\<rparr>"

definition loadGameState :: "int \<Rightarrow> world \<Rightarrow> game_state" where
  "loadGameState now w = loadFromStorage ls_gameState (defaultState now) w"

definition loadTeamsData :: "int \<Rightarrow> world \<Rightarrow> teams option \<times> world" where
  "loadTeamsData now w =
     (case loadFromStorage (map_option Some \<circ> ls_teamsData) None w of
        None \<Rightarrow> (None, w)
      | Some storedData \<Rightarrow>
          if now > tc_expiresAt storedData then (None, removeItem TEAMS_DATA w)
          else (Some (tc_data storedData), w))"

section \<open>DataManager\<close>

text \<open>
  \<open>scoreLogs\<close> and \<open>gameState.scoreLogs\<close> are one array in the source whenever they are
  not both empty: every method that changes one assigns it to the other before it
  returns. The model keeps two equal lists.
\<close>

definition loadAllData :: "int \<Rightarrow> world \<Rightarrow> world" where
  "loadAllData now w =
     (let loaded = loadGameState now w;
          w1 = w\<lparr>dataManager := (dataManager w)\<lparr>gameState := loaded, scoreLogs := gs_scoreLogs loaded\<rparr>\<rparr>;
          (cachedTeamsData, w2) = loadTeamsData now w1
      in case cachedTeamsData of
           None \<Rightarrow> w2
         | Some cached \<Rightarrow> w2\<lparr>dataManager := (dataManager w2)\<lparr>teamsData := cached\<rparr>\<rparr>)"

definition newDataManager :: "int \<Rightarrow> world \<Rightarrow> world" where
  "newDataManager now w =
     loadAllData now
       (w\<lparr>dataManager := \<lparr>teamsData = [], scoreLogs = [], gameState = defaultState now,
                           isDirty = False\<rparr>\<rparr>)"

definition markDirty :: "world \<Rightarrow> world" where
  "markDirty w = w\<lparr>dataManager := (dataManager w)\<lparr>isDirty := True\<rparr>\<rparr>"

text \<open>\<open>saveCurrentState\<close> returns \<open>undefined\<close> (\<open>None\<close>) when there is nothing to save.\<close>

definition saveCurrentState :: "int \<Rightarrow> world \<Rightarrow> bool option \<times> world" where
  "saveCurrentState now w =
     (if \<not> isDirty (dataManager w) then (None, w)
      else (let (success, w1) = saveGameState now (gameState (dataManager w)) w
            in (Some success,
                if success then w1\<lparr>dataManager := (dataManager w1)\<lparr>isDirty := False\<rparr>\<rparr> else w1)))"

definition updateGameState :: "(game_state \<Rightarrow> game_state) \<Rightarrow> world \<Rightarrow> world" where
  "updateGameState updates w =
     markDirty (w\<lparr>dataManager := (dataManager w)\<lparr>gameState := updates (gameState (dataManager w))\<rparr>\<rparr>)"

definition addScoreLog :: "log_entry \<Rightarrow> world \<Rightarrow> world" where
  "addScoreLog logEntry w =
     (let logs = scoreLogs (dataManager w) @ [logEntry]
      in markDirty (w\<lparr>dataManager := (dataManager w)
           \<lparr>scoreLogs := logs, gameState := (gameState (dataManager w))\<lparr>gs_scoreLogs := logs\<rparr>\<rparr>\<rparr>))"

fun findIndex :: "('a \<Rightarrow> bool) \<Rightarrow> 'a list \<Rightarrow> nat option" where
  "findIndex p [] = None"
| "findIndex p (x # xs) = (if p x then Some 0 else map_option Suc (findIndex p xs))"

definition updateScoreLog :: "string \<Rightarrow> (log_entry \<Rightarrow> log_entry) \<Rightarrow> world \<Rightarrow> bool \<times> world" where
  "updateScoreLog sid updates w =
     (case findIndex (\<lambda>log. scoreID log = sid) (scoreLogs (dataManager w)) of
        Some index \<Rightarrow>
          (let logs = (scoreLogs (dataManager w))[index := updates (scoreLogs (dataManager w) ! index)]
           in (True, markDirty (w\<lparr>dataManager := (dataManager w)
                 \<lparr>scoreLogs := logs, gameState := (gameState (dataManager w))\<lparr>gs_scoreLogs := logs\<rparr>\<rparr>\<rparr>)))
      | None \<Rightarrow> (False, w))"

definition getScoreLog :: "string \<Rightarrow> world \<Rightarrow> log_entry option" where
  "getScoreLog sid w = find (\<lambda>log. scoreID log = sid) (scoreLogs (dataManager w))"

definition clearScoreLogs :: "world \<Rightarrow> world" where
  "clearScoreLogs w =
     markDirty (w\<lparr>dataManager := (dataManager w)
       \<lparr>scoreLogs := [], gameState := (gameState (dataManager w))\<lparr>gs_scoreLogs := []\<rparr>\<rparr>\<rparr>)"

definition removeScoreLog :: "string \<Rightarrow> world \<Rightarrow> log_entry option \<times> world" where
  "removeScoreLog sid w =
     (case findIndex (\<lambda>log. scoreID log = sid) (scoreLogs (dataManager w)) of
        None \<Rightarrow> (None, w)
      | Some index \<Rightarrow>
          (let removed = scoreLogs (dataManager w) ! index;
               logs = take index (scoreLogs (dataManager w)) @ drop (Suc index) (scoreLogs (dataManager w))
           in (Some removed, markDirty (w\<lparr>dataManager := (dataManager w)
                 \<lparr>scoreLogs := logs, gameState := (gameState (dataManager w))\<lparr>gs_scoreLogs := logs\<rparr>\<rparr>\<rparr>))))"

definition resetGameState :: "int \<Rightarrow> world \<Rightarrow> world" where
  "resetGameState now w =
     markDirty (w\<lparr>dataManager := (dataManager w)\<lparr>gameState := defaultState now, scoreLogs := []\<rparr>\<rparr>)"

section \<open>TimerManager\<close>

text \<open>
  An instant is its number of milliseconds since the epoch. \<open>Date.parse\<close> applied to a
  \<open>Date\<close> object reads the object's string form, which has no milliseconds: the instant
  rounded down to the whole second. \<open>%\<close> is JavaScript's remainder, with the sign of
  the dividend. \<open>toISOString\<close> followed by \<open>new Date\<close> gives the same instant back.
\<close>

definition DEFAULT_TIMER_MINUTES :: int where
  "DEFAULT_TIMER_MINUTES = 100"

definition dateParse :: "int \<Rightarrow> int" where
  "dateParse t = (t div 1000) * 1000"

definition jsRemainder :: "int \<Rightarrow> int \<Rightarrow> int" where
  "jsRemainder a b = sgn a * (\<bar>a\<bar> mod \<bar>b\<bar>)"

record time_remaining =
  tr_total :: int
  tr_minutes :: int
  tr_seconds :: int

definition getTimeRemaining :: "int \<Rightarrow> int \<Rightarrow> time_remaining" where
  "getTimeRemaining now endtime =
     (let t = dateParse endtime - dateParse now
      in \<lparr>tr_total = t, tr_minutes = t div 1000 div 60, tr_seconds = jsRemainder (t div 1000) 60\<rparr>)"

text \<open>
  \<open>parseInt(n, 10)\<close> of a number reads the number's string form: the integer itself
  below \<open>10^21\<close> in absolute value, and the leading digit with the sign from there on,
  where the string form is in exponent notation.
\<close>

fun leadingDigit :: "nat \<Rightarrow> nat" where
  "leadingDigit n = (if n < 10 then n else leadingDigit (n div 10))"

definition parseInt10 :: "int \<Rightarrow> int" where
  "parseInt10 n = (if \<bar>n\<bar> < 10 ^ 21 then n else sgn n * int (leadingDigit (nat \<bar>n\<bar>)))"

text \<open>
  \<open>updateDisplay\<close>: nothing happens on a page without the timer's display. Otherwise
  the display shows the minutes and seconds left, each of at least two digits, with a
  minus sign when the total is negative, and the time field of the page, when there is
  one, is set to the locale's text of the current time. The minutes and seconds come
  from the end time while the timer runs, from the remaining milliseconds while it is
  paused, and from the default otherwise. The CSS class of the display and what
  \<open>updateUI\<close> writes (the button label and two more classes) are not part of the page
  as modelled here; nothing reads them.
\<close>

definition padStart2 :: "string \<Rightarrow> string" where
  "padStart2 s = replicate (2 - length s) CHR ''0'' @ s"

definition displayedTime :: "int \<Rightarrow> timerManager \<Rightarrow> time_remaining" where
  "displayedTime now tm =
     (case (if isRunning tm then endTime tm else None) of
        Some e \<Rightarrow> getTimeRemaining now e
      | None \<Rightarrow>
          (case remainingTimeMs tm of
             Some ms \<Rightarrow>
               \<lparr>tr_total = ms, tr_minutes = ms div 1000 div 60,
                tr_seconds = jsRemainder ms (60 * 1000) div 1000\<rparr>
           | None \<Rightarrow>
               \<lparr>tr_total = defaultMinutes tm * 60 * 1000, tr_minutes = defaultMinutes tm,
                tr_seconds = 0\<rparr>))"

definition timeString :: "time_remaining \<Rightarrow> string" where
  "timeString timeRemaining =
     (let mins = padStart2 (numberToString \<bar>tr_minutes timeRemaining\<bar>);
          secs = padStart2 (numberToString \<bar>tr_seconds timeRemaining\<bar>);
          s = mins @ '':'' @ secs
      in if tr_total timeRemaining < 0 then ''-'' @ s else s)"

definition updateDisplay :: "int \<Rightarrow> world \<Rightarrow> world" where
  "updateDisplay now w =
     (case timerDisplay (document w) of
        None \<Rightarrow> w
      | Some shown \<Rightarrow>
          w\<lparr>document := (document w)
               \<lparr>timerDisplay := Some (timeString (displayedTime now (timerManager w))),
                time := (case time (document w) of
                           None \<Rightarrow> None
                         | Some v \<Rightarrow> Some (toLocaleString w now))\<rparr>\<rparr>)"

definition saveTimerState :: "int \<Rightarrow> world \<Rightarrow> world" where
  "saveTimerState now w =
     (let w1 = snd (saveToStorage now (TimerEndTimeItem (endTime (timerManager w))) w);
          w2 = snd (saveToStorage now (TimerRunningItem (isRunning (timerManager w1))) w1)
      in snd (saveToStorage now (TimerRemainingTimeItem (remainingTimeMs (timerManager w2))) w2))"

definition setRemainingTime :: "int \<Rightarrow> world \<Rightarrow> world" where
  "setRemainingTime milliseconds w =
     w\<lparr>timerManager := (timerManager w)\<lparr>remainingTimeMs := Some milliseconds, endTime := None\<rparr>\<rparr>"

definition stop :: "int \<Rightarrow> world \<Rightarrow> world" where
  "stop now w =
     (if \<not> isRunning (timerManager w) then w
      else (let tm = timerManager w;
                tm1 = (case endTime tm of
                         None \<Rightarrow> tm
                       | Some e \<Rightarrow> tm\<lparr>remainingTimeMs := Some (max 0 (tr_total (getTimeRemaining now e)))\<rparr>);
                tm2 = tm1\<lparr>isRunning := False, endTime := None, timerInterval := False\<rparr>
            in updateDisplay now (saveTimerState now (w\<lparr>timerManager := tm2\<rparr>))))"

definition start :: "int \<Rightarrow> world \<Rightarrow> world" where
  "start now w =
     (if isRunning (timerManager w) then w
      else (let tm = timerManager w;
                tm1 = (case remainingTimeMs tm of
                         None \<Rightarrow> tm
                       | Some r \<Rightarrow> tm\<lparr>endTime := Some (now + r), remainingTimeMs := None\<rparr>);
                tm2 = (case endTime tm1 of
                         None \<Rightarrow> tm1\<lparr>endTime := Some (now + defaultMinutes tm1 * 60 * 1000)\<rparr>
                       | Some e \<Rightarrow> tm1);
                w1 = saveTimerState now (w\<lparr>timerManager := tm2\<lparr>isRunning := True\<rparr>\<rparr>)
            in updateDisplay now (w1\<lparr>timerManager := (timerManager w1)\<lparr>timerInterval := True\<rparr>\<rparr>)))"

text \<open>
  The callback that \<open>start\<close> schedules every second; it runs while the interval is set.
  It updates the display and stops a running timer whose end time has come.
\<close>

definition timerTick :: "int \<Rightarrow> world \<Rightarrow> world" where
  "timerTick now w =
     (if \<not> timerInterval (timerManager w) then w
      else (let w1 = updateDisplay now w
            in case endTime (timerManager w1) of
                 None \<Rightarrow> w1
               | Some e \<Rightarrow>
                   if tr_total (getTimeRemaining now e) \<le> 0 \<and> isRunning (timerManager w1)
                   then stop now w1 else w1))"

definition toggle :: "int \<Rightarrow> world \<Rightarrow> world" where
  "toggle now w = (if isRunning (timerManager w) then stop now w else start now w)"

definition reset :: "int \<Rightarrow> int \<Rightarrow> world \<Rightarrow> world" where
  "reset minutes now w =
     (let w1 = stop now w
      in updateDisplay now
           (saveTimerState now
              (w1\<lparr>timerManager := (timerManager w1)\<lparr>remainingTimeMs := Some (minutes * 60 * 1000),
                                                      endTime := None\<rparr>\<rparr>)))"

text \<open>
  \<open>loadTimerState\<close>. The stored end time is \<open>null\<close> or a non-empty text, the stored
  remaining time \<open>null\<close> or a number; \<open>if (storedRemainingTime)\<close> holds for a number
  other than zero. A timer found running with time left is resumed by \<open>start\<close>, which
  returns at once because the running flag is already set.
\<close>

definition loadTimerState :: "int \<Rightarrow> world \<Rightarrow> world" where
  "loadTimerState now w =
     (let storedEndTime = loadFromStorage ls_timerEndTime None w;
          storedIsRunning = loadFromStorage (map_option Some \<circ> ls_timerRunning) None w;
          storedRemainingTime = loadFromStorage ls_timerRemainingTime None w;
          tm = timerManager w;
          tm1 = (case storedEndTime of None \<Rightarrow> tm | Some e \<Rightarrow> tm\<lparr>endTime := Some e\<rparr>);
          tm2 = (case storedRemainingTime of
                   None \<Rightarrow> tm1
                 | Some r \<Rightarrow> if r \<noteq> 0 then tm1\<lparr>remainingTimeMs := Some (parseInt10 r)\<rparr> else tm1);
          tm3 = tm2\<lparr>isRunning := (storedIsRunning = Some True)\<rparr>;
          w1 = w\<lparr>timerManager := tm3\<rparr>
      in case (if isRunning tm3 then endTime tm3 else None) of
           Some e \<Rightarrow>
             if tr_total (getTimeRemaining now e) \<le> 0 then updateDisplay now (stop now w1)
             else start now w1
         | None \<Rightarrow>
             (case remainingTimeMs tm3 of
                Some r \<Rightarrow> updateDisplay now (setRemainingTime r w1)
              | None \<Rightarrow> reset (defaultMinutes tm3) now w1))"

definition newTimerManager :: "int \<Rightarrow> world \<Rightarrow> world" where
  "newTimerManager now w =
     loadTimerState now
       (w\<lparr>timerManager := \<lparr>timerInterval = False, isRunning = False, endTime = None,
                            remainingTimeMs = None, defaultMinutes = DEFAULT_TIMER_MINUTES\<rparr>\<rparr>)"


section \<open>ScorekeeperApp\<close>

text \<open>
  Reading and assigning the \<open>value\<close> of page elements:
  \<open>document.getElementById(id)?.value || ''\<close> is the empty string for a missing element.
\<close>

definition selectValue :: "select option \<Rightarrow> string" where
  "selectValue el = (case el of None \<Rightarrow> [] | Some s \<Rightarrow> selected s)"

definition textValue :: "string option \<Rightarrow> string" where
  "textValue el = (case el of None \<Rightarrow> [] | Some v \<Rightarrow> v)"

definition assignValue :: "string \<Rightarrow> select \<Rightarrow> select" where
  "assignValue v s = s\<lparr>selected := (if v \<in> set (options s) then v else [])\<rparr>"

definition setRows :: "row list \<Rightarrow> world \<Rightarrow> world" where
  "setRows rows w = w\<lparr>document := (document w)\<lparr>scoringTableBody := Some rows\<rparr>\<rparr>"

definition appendChild :: "row \<Rightarrow> world \<Rightarrow> world" where
  "appendChild r w =
     (case scoringTableBody (document w) of
        None \<Rightarrow> w
      | Some rows \<Rightarrow> setRows (rows @ [r]) w)"

text \<open>
  \<open>createScoreRow\<close>: the row of an entry at an index, with the scoreboard text
  \<open>${teamAScore}:${teamBScore}\<close> of the moment. The cells hold the text put between the
  \<open>td\<close> tags; the last cell holds the edit button.
\<close>

definition createScoreRow :: "log_entry \<Rightarrow> nat \<Rightarrow> world \<Rightarrow> row" where
  "createScoreRow logEntry index w =
     (let teamAName = selectValue (teamA (document w));
          teamLetter = (if Team logEntry = teamAName then ''A'' else ''B'');
          scoreboard = numberToString (int (teamAScore w)) @ '':'' @ numberToString (int (teamBScore w));
          abba = computeAbbaForIndex (abbaStart w) index
      in \<lparr>data_score_id = scoreID logEntry,
          cells = (if teamLetter = ''A''
                   then [abba, Score logEntry, Assist logEntry, scoreboard, [], [], ''Edit'']
                   else [abba, [], [], scoreboard, Score logEntry, Assist logEntry, ''Edit''])\<rparr>)"

definition updateAbbaColumn :: "world \<Rightarrow> world" where
  "updateAbbaColumn w =
     (case scoringTableBody (document w) of
        None \<Rightarrow> w
      | Some rows \<Rightarrow>
          setRows (map (\<lambda>(idx, r). if cells r = [] then r
                                     else r\<lparr>cells := (cells r)[0 := computeAbbaForIndex (abbaStart w) idx]\<rparr>)
                       (enumerate 0 rows)) w)"

definition rebuildScoreTable :: "log_entry list \<Rightarrow> world \<Rightarrow> world" where
  "rebuildScoreTable logs w =
     (case scoringTableBody (document w) of
        None \<Rightarrow> w
      | Some rows \<Rightarrow> setRows (map (\<lambda>(idx, logEntry). createScoreRow logEntry idx w) (enumerate 0 logs)) w)"

definition createLogObject :: "int \<Rightarrow> string \<Rightarrow> string \<Rightarrow> string \<Rightarrow> string \<Rightarrow> world \<Rightarrow> log_entry" where
  "createLogObject now sid teamLetter scorer assist w =
     (let teamAName = selectValue (teamA (document w));
          teamBName = selectValue (teamB (document w))
      in \<lparr>scoreID = sid,
          GameID = teamAName @ '' vs '' @ teamBName,
          Time = toLocaleString w now,
          Team = (if teamLetter = ''A'' then teamAName else teamBName),
          Score = scorer,
          Assist = assist\<rparr>)"

definition addScoreToTable :: "log_entry \<Rightarrow> world \<Rightarrow> world" where
  "addScoreToTable logEntry w =
     (case scoringTableBody (document w) of
        None \<Rightarrow> w
      | Some rows \<Rightarrow> appendChild (createScoreRow logEntry (length rows) w) w)"

definition closePopup :: "world \<Rightarrow> world" where
  "closePopup w = w\<lparr>currentEditID := None\<rparr>"

definition openPopup :: "string \<Rightarrow> world \<Rightarrow> world" where
  "openPopup team w =
     (let w1 = w\<lparr>currentEditID := None\<rparr>
      in case scorePopup (document w1) of
           None \<Rightarrow> w1
         | Some d \<Rightarrow>
             if \<not> overlay (document w1) then w1
             else w1\<lparr>document := (document w1)\<lparr>scorePopup := Some (Some team)\<rparr>\<rparr>)"

text \<open>\<open>addNewScore\<close>: the id of the new entry is \<open>Date.now().toString()\<close>.\<close>

definition addNewScore :: "int \<Rightarrow> string \<Rightarrow> string \<Rightarrow> string \<Rightarrow> world \<Rightarrow> world" where
  "addNewScore now team scorer assist w =
     (let w1 = (if team = ''A'' then w\<lparr>teamAScore := teamAScore w + 1\<rparr>
                else w\<lparr>teamBScore := teamBScore w + 1\<rparr>);
          newScoreID = numberToString now;
          logEntry = createLogObject now newScoreID team scorer assist w1
      in closePopup (addScoreToTable logEntry (addScoreLog logEntry w1)))"

definition updateScoreInTable :: "string \<Rightarrow> string \<Rightarrow> string \<Rightarrow> world \<Rightarrow> world" where
  "updateScoreInTable sid scorer assist w =
     (case scoringTableBody (document w) of
        None \<Rightarrow> w
      | Some rows \<Rightarrow>
          (case findIndex (\<lambda>r. data_score_id r = sid) rows of
             None \<Rightarrow> w
           | Some i \<Rightarrow>
               (case scorePopup (document w) of
                  None \<Rightarrow> w
                | Some teamLetter \<Rightarrow>
                    (let r = rows ! i;
                         r' = (if teamLetter = Some ''A''
                               then r\<lparr>cells := (cells r)[1 := scorer, 2 := assist]\<rparr>
                               else r\<lparr>cells := (cells r)[4 := scorer, 5 := assist]\<rparr>)
                     in setRows (rows[i := r']) w))))"

definition updateExistingScore :: "string \<Rightarrow> string \<Rightarrow> world \<Rightarrow> world" where
  "updateExistingScore scorer assist w =
     (case currentEditID w of
        None \<Rightarrow> w
      | Some sid \<Rightarrow>
          (let (updated, w1) = updateScoreLog sid (\<lambda>log. log\<lparr>Score := scorer, Assist := assist\<rparr>) w
           in if updated then closePopup (updateScoreInTable sid scorer assist w1) else w1))"

text \<open>
  \<open>handleSaveScore\<close>: the team letter comes from the popup, the scorer and the assist
  from its two dropdowns, whose values are arguments here. An empty or missing value
  is rejected.
\<close>

definition handleSaveScore :: "int \<Rightarrow> string \<Rightarrow> string \<Rightarrow> world \<Rightarrow> world" where
  "handleSaveScore now scorer assist w =
     (let team = (case scorePopup (document w) of None \<Rightarrow> [] | Some None \<Rightarrow> [] | Some (Some t) \<Rightarrow> t)
      in if team = [] \<or> scorer = [] \<or> assist = [] then w
         else if currentEditID w = None \<or> currentEditID w = Some []
         then addNewScore now team scorer assist w
         else updateExistingScore scorer assist w)"

definition editScore :: "string \<Rightarrow> world \<Rightarrow> world" where
  "editScore sid w =
     (case getScoreLog sid w of
        None \<Rightarrow> w
      | Some logToEdit \<Rightarrow>
          (let w1 = w\<lparr>currentEditID := Some sid\<rparr>;
               teamAName = selectValue (teamA (document w1));
               teamLetter = (if Team logToEdit = teamAName then ''A'' else ''B'')
           in case scorePopup (document w1) of
                None \<Rightarrow> w1
              | Some d \<Rightarrow> w1\<lparr>document := (document w1)\<lparr>scorePopup := Some (Some teamLetter)\<rparr>\<rparr>))"

text \<open>
  \<open>rebuildTableAndCounters\<close>: nothing happens without the table body. Otherwise both
  counters restart at zero and the \<open>forEach\<close> over the log counts each entry for A when
  its team is the name selected for Team A, and for B otherwise.
\<close>

fun rebuildTableAndCounters_loop :: "string \<Rightarrow> log_entry list \<Rightarrow> nat \<Rightarrow> world \<Rightarrow> world" where
  "rebuildTableAndCounters_loop teamAName [] idx w = w"
| "rebuildTableAndCounters_loop teamAName (logEntry # logs) idx w =
     (let teamLetter = (if Team logEntry = teamAName then ''A'' else ''B'');
          w1 = (if teamLetter = ''A'' then w\<lparr>teamAScore := teamAScore w + 1\<rparr>
                else w\<lparr>teamBScore := teamBScore w + 1\<rparr>);
          r = createScoreRow logEntry idx w1;
          w2 = appendChild r w1
      in rebuildTableAndCounters_loop teamAName logs (Suc idx) w2)"

definition rebuildTableAndCounters :: "world \<Rightarrow> world" where
  "rebuildTableAndCounters w =
     (case scoringTableBody (document w) of
        None \<Rightarrow> w
      | Some rows \<Rightarrow>
          (let w1 = setRows [] (w\<lparr>teamAScore := 0, teamBScore := 0\<rparr>);
               teamAName = selectValue (teamA (document w1))
           in updateAbbaColumn
                (rebuildTableAndCounters_loop teamAName (scoreLogs (dataManager w1)) 0 w1)))"

text \<open>
  \<open>autoSave\<close> captures the page and the counters into the game state (every property
  is overwritten) and saves it when dirty.
\<close>

definition autoSave :: "int \<Rightarrow> world \<Rightarrow> world" where
  "autoSave now w =
     (if isRestoring w then w
      else (let doc = document w;
                abbaValue = selectValue (abbaStartSelect doc);
                currentState =
                  \<lparr>gs_teamAScore = teamAScore w,
                   gs_teamBScore = teamBScore w,
                   gs_teamAName = selectValue (teamA doc),
                   gs_teamBName = selectValue (teamB doc),
                   gs_teamAPlayers = textValue (teamAList doc),
                   gs_teamBPlayers = textValue (teamBList doc),
                   gs_gameTime = textValue (time doc),
                   gs_scoreLogs = scoreLogs (dataManager w),
                   gs_abbaStart = Some (if abbaValue = [] then abbaStart w else abbaValue),
                   gs_timestamp = now\<rparr>
            in snd (saveCurrentState now (updateGameState (\<lambda>gs. currentState) w))))"

definition removeRow :: "string \<Rightarrow> world \<Rightarrow> world" where
  "removeRow sid w =
     (case scoringTableBody (document w) of
        None \<Rightarrow> w
      | Some rows \<Rightarrow>
          (case findIndex (\<lambda>r. data_score_id r = sid) rows of
             None \<Rightarrow> w
           | Some i \<Rightarrow> setRows (take i rows @ drop (Suc i) rows) w))"

definition handleDeleteScore :: "int \<Rightarrow> world \<Rightarrow> world" where
  "handleDeleteScore now w =
     (case currentEditID w of
        None \<Rightarrow> w
      | Some sid \<Rightarrow>
          if sid = [] then w
          else (let (removed, w1) = removeScoreLog sid w
                in case removed of
                     None \<Rightarrow> w1
                   | Some entry \<Rightarrow>
                       autoSave now (closePopup (rebuildTableAndCounters (removeRow sid w1)))))"

text \<open>
  \<open>handleSubmitScore\<close> returns the CSV text it hands to the download (\<open>None\<close> when no
  score is logged and nothing is exported). The request to the spreadsheet only decides
  which notification is shown, and the file name only names the download; both are left
  out, as are events arriving while the request is awaited.
\<close>

definition csvOfLogs :: "string \<Rightarrow> log_entry list \<Rightarrow> string" where
  "csvOfLogs gameID logs =
     join [CR, LF]
       (toCSVLine [''GameID'', ''Time'', ''Team'', ''Score'', ''Assist'']
        # map (\<lambda>log. toCSVLine [if GameID log = [] then gameID else GameID log,
                                  Time log, Team log, Score log, Assist log]) logs)"

definition handleSubmitScore :: "int \<Rightarrow> world \<Rightarrow> string option \<times> world" where
  "handleSubmitScore now w =
     (let logs = scoreLogs (dataManager w)
      in if length logs = 0 then (None, w)
         else (let teamAName = selectValue (teamA (document w));
                   teamBName = selectValue (teamB (document w));
                   gameID = teamAName @ '' vs '' @ teamBName;
                   csv = csvOfLogs gameID logs;
                   w1 = rebuildTableAndCounters (clearScoreLogs w);
                   w2 = w1\<lparr>currentEditID := None\<rparr>;
                   w3 = updateGameState
                          (\<lambda>gs. gs\<lparr>gs_teamAScore := 0, gs_teamBScore := 0, gs_scoreLogs := [],
                                    gs_timestamp := now\<rparr>) w2
               in (Some csv, snd (saveCurrentState now w3))))"

text \<open>
  \<open>restoreGameState\<close> and \<open>checkAndRestoreState\<close>; the answer to the \<open>confirm\<close> dialog
  is an argument.
\<close>

definition restoreGameState :: "game_state \<Rightarrow> world \<Rightarrow> world" where
  "restoreGameState gs w =
     (let w1 = w\<lparr>teamAScore := gs_teamAScore gs, teamBScore := gs_teamBScore gs\<rparr>;
          d = document w1;
          d1 = (case teamA d of
                  None \<Rightarrow> d
                | Some s \<Rightarrow> if gs_teamAName gs \<noteq> [] then d\<lparr>teamA := Some (assignValue (gs_teamAName gs) s)\<rparr> else d);
          d2 = (case teamB d1 of
                  None \<Rightarrow> d1
                | Some s \<Rightarrow> if gs_teamBName gs \<noteq> [] then d1\<lparr>teamB := Some (assignValue (gs_teamBName gs) s)\<rparr> else d1);
          d3 = (case teamAList d2 of
                  None \<Rightarrow> d2
                | Some v \<Rightarrow> if gs_teamAPlayers gs \<noteq> [] then d2\<lparr>teamAList := Some (gs_teamAPlayers gs)\<rparr> else d2);
          d4 = (case teamBList d3 of
                  None \<Rightarrow> d3
                | Some v \<Rightarrow> if gs_teamBPlayers gs \<noteq> [] then d3\<lparr>teamBList := Some (gs_teamBPlayers gs)\<rparr> else d3);
          d5 = (case time d4 of
                  None \<Rightarrow> d4
                | Some v \<Rightarrow> if gs_gameTime gs \<noteq> [] then d4\<lparr>time := Some (gs_gameTime gs)\<rparr> else d4);
          w2 = w1\<lparr>document := d5\<rparr>;
          w3 = (if length (gs_scoreLogs gs) > 0 then rebuildScoreTable (gs_scoreLogs gs) w2 else w2)
      in case abbaStartSelect (document w3) of
           None \<Rightarrow> w3
         | Some sel \<Rightarrow>
             (case gs_abbaStart gs of
                None \<Rightarrow> w3
              | Some a \<Rightarrow>
                  if a = [] then w3
                  else (let start = (if a = ''F'' then ''F'' else ''M'')
                        in updateAbbaColumn
                             (w3\<lparr>abbaStart := start,
                                 document := (document w3)\<lparr>abbaStartSelect := Some (assignValue start sel)\<rparr>\<rparr>))))"

definition checkAndRestoreState :: "int \<Rightarrow> bool \<Rightarrow> world \<Rightarrow> world" where
  "checkAndRestoreState now shouldRestore w =
     (let gs = gameState (dataManager w)
      in if gs_timestamp gs \<noteq> 0 \<and> now - gs_timestamp gs < 24 * 60 * 60 * 1000
         then (let w1 = w\<lparr>isRestoring := True\<rparr>;
                   w2 = (if shouldRestore then restoreGameState gs w1 else resetGameState now w1)
               in w2\<lparr>isRestoring := False\<rparr>)
         else w)"

text \<open>
  The constructor builds the managers from what the browser holds and starts both
  counters at zero. The seconds timer is not persisted and is left out.
\<close>

definition newScorekeeperApp :: "int \<Rightarrow> world \<Rightarrow> world" where
  "newScorekeeperApp now w =
     (let w1 = newTimerManager now
                 (newDataManager now (w\<lparr>persistenceManager := \<lparr>lastSaveTime = 0\<rparr>\<rparr>))
      in w1\<lparr>teamAScore := 0, teamBScore := 0, currentEditID := None, isRestoring := False,
            abbaStart := ''M''\<rparr>)"

text \<open>
  Startup: the constructor, then the first step of \<open>init\<close>. Loading the rosters over the
  network and wiring the listeners follow; they are not modelled.
\<close>

definition startup :: "int \<Rightarrow> bool \<Rightarrow> world \<Rightarrow> world" where
  "startup now shouldRestore w = checkAndRestoreState now shouldRestore (newScorekeeperApp now w)"

subsection \<open>User actions on the point log\<close>

text \<open>
  Appending opens the popup for a team and saves; editing and deleting open the popup
  on an entry (\<open>editScore\<close>) and then save or delete. Each action happens at a time.
\<close>

datatype action =
  Append string string string
  | Edit string string string
  | Delete string

fun perform :: "int \<Rightarrow> action \<Rightarrow> world \<Rightarrow> world" where
  "perform now (Append team scorer assist) w = handleSaveScore now scorer assist (openPopup team w)"
| "perform now (Edit sid scorer assist) w =
     (let w1 = editScore sid w
      in if currentEditID w1 = Some sid then handleSaveScore now scorer assist w1 else w1)"
| "perform now (Delete sid) w =
     (let w1 = editScore sid w
      in if currentEditID w1 = Some sid then handleDeleteScore now w1 else w1)"

fun run :: "(int \<times> action) list \<Rightarrow> world \<Rightarrow> world" where
  "run [] w = w"
| "run ((now, a) # rest) w = run rest (perform now a w)"

section \<open>Reading the trace\<close>

definition isRemoveItem :: "event \<Rightarrow> bool" where
  "isRemoveItem e = (case e of RemoveItem k \<Rightarrow> True | _ \<Rightarrow> False)"

definition isSaveToStorage :: "event \<Rightarrow> bool" where
  "isSaveToStorage e = (case e of SaveToStorage k \<Rightarrow> True | _ \<Rightarrow> False)"

text \<open>The number of times \<open>saveToStorage\<close> was called.\<close>

definition countSaves :: "event list \<Rightarrow> nat" where
  "countSaves tr = length (filter isSaveToStorage tr)"

section \<open>Example states\<close>

text \<open>
  A browser with an empty store and a page on which no team is selected yet, and a page
  with the teams Red and Blue selected. The objects of the application are blank until
  the constructor runs.
\<close>

definition emptyStorage :: localStorage where
  "emptyStorage =
     \<lparr>ls_gameState = None, ls_teamsData = None, ls_timerEndTime = None, ls_timerRunning = None,
      ls_timerRemainingTime = None, ls_lastSave = None\<rparr>"

definition blankPage :: document where
  "blankPage =
     \<lparr>teamA = Some \<lparr>options = [[]], selected = []\<rparr>,
      teamB = Some \<lparr>options = [[]], selected = []\<rparr>,
      teamAList = Some [], teamBList = Some [], time = Some [], timerDisplay = Some [],
      abbaStartSelect = Some \<lparr>options = [''M'', ''F''], selected = ''M''\<rparr>,
      scoringTableBody = Some [], overlay = True, scorePopup = Some None\<rparr>"

definition redBluePage :: document where
  "redBluePage =
     blankPage\<lparr>teamA := Some \<lparr>options = [[], ''Red'', ''Blue''], selected = ''Red''\<rparr>,
               teamB := Some \<lparr>options = [[], ''Red'', ''Blue''], selected = ''Blue''\<rparr>,
               teamAList := Some ''Ann'', teamBList := Some ''Bob'', time := Some ''noon''\<rparr>"

definition browser :: "localStorage \<Rightarrow> nat \<Rightarrow> document \<Rightarrow> world" where
  "browser ls q page =
     \<lparr>localStorage = ls, quota = q, jsonLength = (\<lambda>it. 10), toLocaleString = (\<lambda>t. ''now''),
      trace = [], document = page,
      persistenceManager = \<lparr>lastSaveTime = 0\<rparr>,
      dataManager = \<lparr>teamsData = [], scoreLogs = [], gameState = defaultState 0, isDirty = False\<rparr>,
      timerManager = \<lparr>timerInterval = False, isRunning = False, endTime = None,
                       remainingTimeMs = None, defaultMinutes = DEFAULT_TIMER_MINUTES\<rparr>,
      teamAScore = 0, teamBScore = 0, currentEditID = None, isRestoring = False,
      abbaStart = ''M''\<rparr>"

text \<open>The timer's state has been written to the store.\<close>

definition timerStatePersisted :: "world \<Rightarrow> bool" where
  "timerStatePersisted w =
     (ls_timerEndTime (localStorage w) = Some (endTime (timerManager w))
      \<and> ls_timerRunning (localStorage w) = Some (isRunning (timerManager w))
      \<and> ls_timerRemainingTime (localStorage w) = Some (remainingTimeMs (timerManager w)))"

text \<open>A game state saved at time 1000 with one point for Red.\<close>

definition oldSnapshot :: game_state where
  "oldSnapshot =
     \<lparr>gs_teamAScore = 1, gs_teamBScore = 0, gs_teamAName = ''Red'', gs_teamBName = ''Blue'',
      gs_teamAPlayers = ''Ann'', gs_teamBPlayers = ''Bob'', gs_gameTime = ''noon'',
      gs_scoreLogs = [\<lparr>scoreID = ''1000'', GameID = ''Red vs Blue'', Time = ''then'', Team = ''Red'',
                       Score = ''Ann'', Assist = ''N/A''\<rparr>],
      gs_abbaStart = Some ''M'', gs_timestamp = 1000\<rparr>"

section \<open>Properties of the possession marker\<close>

lemma block_parity:
  "0 < i \<Longrightarrow> (((i::nat) - 1) div 2) mod 2 = 0 \<longleftrightarrow> (i mod 4 = 1 \<or> i mod 4 = 2)"
  by presburger

text \<open>
  C2. The marker depends on the starting side and the index only. With start \<open>M\<close> the
  indices 0 to 7 give M F F M M F F M, with start \<open>F\<close> they give F M M F F M M F, and in
  general index 0 gives the starting side and the sides then alternate in blocks of two:
  the starting side at the indices 0, 3, 4, 7, 8, ... (index mod 4 is 0 or 3), the other
  side elsewhere.
\<close>

theorem computeAbbaForIndex_blocks_of_two:
  "map (computeAbbaForIndex ''M'') [0..<8] = [''M'', ''F'', ''F'', ''M'', ''M'', ''F'', ''F'', ''M'']
   \<and> map (computeAbbaForIndex ''F'') [0..<8] = [''F'', ''M'', ''M'', ''F'', ''F'', ''M'', ''M'', ''F'']
   \<and> computeAbbaForIndex s i =
        (if i mod 4 = 0 \<or> i mod 4 = 3
         then (if s = ''F'' then ''F'' else ''M'')
         else (if s = ''F'' then ''M'' else ''F''))"
proof (intro conjI)
  show "map (computeAbbaForIndex ''M'') [0..<8] = [''M'', ''F'', ''F'', ''M'', ''M'', ''F'', ''F'', ''M'']"
    by (simp add: computeAbbaForIndex_def upt_rec)
  show "map (computeAbbaForIndex ''F'') [0..<8] = [''F'', ''M'', ''M'', ''F'', ''F'', ''M'', ''M'', ''F'']"
    by (simp add: computeAbbaForIndex_def upt_rec)
  show "computeAbbaForIndex s i =
        (if i mod 4 = 0 \<or> i mod 4 = 3
         then (if s = ''F'' then ''F'' else ''M'')
         else (if s = ''F'' then ''M'' else ''F''))"
  proof (cases "i = 0")
    case True
    then show ?thesis by (simp add: computeAbbaForIndex_def)
  next
    case False
    then have pos: "0 < i" by simp
    have m: "i mod 4 = 0 \<or> i mod 4 = 1 \<or> i mod 4 = 2 \<or> i mod 4 = 3" by presburger
    from block_parity[OF pos] m False show ?thesis
      by (auto simp add: computeAbbaForIndex_def Let_def)
  qed
qed

theorem computeAbbaForIndex_blocks_of_two_witness:
  "computeAbbaForIndex ''F'' 9 = ''M'' \<and> computeAbbaForIndex ''M'' 11 = ''M''"
  using computeAbbaForIndex_blocks_of_two[of "''F''" 9] computeAbbaForIndex_blocks_of_two[of "''M''" 11]
  by simp

section \<open>Properties of the CSV functions\<close>

lemma parseCSV_loop_plain:
  "\<not> needsQuoting s \<Longrightarrow>
   parseCSV_loop (s @ rest) rows row cell False = parseCSV_loop rest rows row (cell @ s) False"
proof (induction s arbitrary: cell)
  case Nil
  then show ?case by simp
next
  case (Cons c s)
  then show ?case by (simp add: needsQuoting_def)
qed

lemma parseCSV_loop_quoted:
  "CR \<notin> set s \<Longrightarrow> (rest = [] \<or> hd rest \<noteq> dquote) \<Longrightarrow>
   parseCSV_loop (doubleQuotes s @ dquote # rest) rows row cell True
     = parseCSV_loop rest rows row (cell @ s) False"
proof (induction s arbitrary: cell)
  case Nil
  then show ?case by (cases rest) (auto simp add: doubleQuotes_def)
next
  case (Cons c s)
  then have ih: "\<And>cell. parseCSV_loop (doubleQuotes s @ dquote # rest) rows row cell True
     = parseCSV_loop rest rows row (cell @ s) False" by simp
  have dq: "doubleQuotes (c # s) = (if c = dquote then [dquote, dquote] else [c]) @ doubleQuotes s"
    by (simp add: doubleQuotes_def)
  from Cons.prems have "c \<noteq> CR" by auto
  then show ?case by (simp add: dq ih)
qed

lemma parseCSV_loop_field:
  assumes "CR \<notin> set s" "rest = [] \<or> hd rest \<noteq> dquote"
  shows "parseCSV_loop (csvField s @ rest) rows row cell False
           = parseCSV_loop rest rows row (cell @ s) False"
proof (cases "needsQuoting s")
  case True
  have "parseCSV_loop (dquote # doubleQuotes s @ dquote # rest) rows row cell False
          = parseCSV_loop (doubleQuotes s @ dquote # rest) rows row cell True"
    by (cases "doubleQuotes s @ dquote # rest") simp_all
  with True assms show ?thesis by (simp add: csvField_def parseCSV_loop_quoted)
next
  case False
  then show ?thesis by (simp add: csvField_def parseCSV_loop_plain)
qed

lemma parseCSV_loop_line:
  "\<forall>f\<in>set (f0 # fs). CR \<notin> set f \<Longrightarrow>
   parseCSV_loop (toCSVLine (f0 # fs)) rows row [] False
     = (rows, row @ butlast (f0 # fs), last (f0 # fs))"
proof (induction fs arbitrary: f0 row)
  case Nil
  then show ?case using parseCSV_loop_field[of f0 "[]" rows row "[]"]
    by (simp add: toCSVLine_def)
next
  case (Cons g gs)
  have "parseCSV_loop (toCSVLine (f0 # g # gs)) rows row [] False
          = parseCSV_loop (csvField f0 @ (comma # toCSVLine (g # gs))) rows row [] False"
    by (simp add: toCSVLine_def)
  also have "\<dots> = parseCSV_loop (comma # toCSVLine (g # gs)) rows row f0 False"
    using Cons.prems parseCSV_loop_field[of f0 "comma # toCSVLine (g # gs)" rows row "[]"] by simp
  also have "\<dots> = parseCSV_loop (toCSVLine (g # gs)) rows (row @ [f0]) [] False"
    by simp
  also have "\<dots> = (rows, (row @ [f0]) @ butlast (g # gs), last (g # gs))"
    using Cons.prems by (intro Cons.IH) simp
  finally show ?case by simp
qed

text \<open>
  C8, as the code has it. A field that contains a double quote, a comma, a line feed or a
  carriage return is written between double quotes with each of its double quotes
  doubled; every other field is written as it is; the fields of a line are separated by
  commas. Parsing a written line of at least one field gives the fields back when no
  field contains a carriage return (the parser drops every carriage return inside
  quotes) and the line is not the single empty field, which is written as the empty
  text.
\<close>

theorem parseCSV_toCSVLine_roundtrip:
  "(dquote \<in> set f \<or> comma \<in> set f \<or> LF \<in> set f \<or> CR \<in> set f \<longrightarrow>
      toCSVLine [f]
        = [dquote] @ concat (map (\<lambda>c. if c = dquote then [dquote, dquote] else [c]) f) @ [dquote])
   \<and> (dquote \<notin> set f \<and> comma \<notin> set f \<and> LF \<notin> set f \<and> CR \<notin> set f \<longrightarrow> toCSVLine [f] = f)
   \<and> toCSVLine (f # g # gs) = toCSVLine [f] @ [comma] @ toCSVLine (g # gs)
   \<and> ((\<forall>x\<in>set flds. CR \<notin> set x) \<and> flds \<noteq> [] \<and> flds \<noteq> [[]] \<longrightarrow>
        parseCSV (toCSVLine flds) = [flds])"
proof (intro conjI impI)
  have nq: "needsQuoting f = (dquote \<in> set f \<or> comma \<in> set f \<or> LF \<in> set f \<or> CR \<in> set f)"
    by (auto simp add: needsQuoting_def list_ex_iff)
  show "toCSVLine [f]
        = [dquote] @ concat (map (\<lambda>c. if c = dquote then [dquote, dquote] else [c]) f) @ [dquote]"
    if "dquote \<in> set f \<or> comma \<in> set f \<or> LF \<in> set f \<or> CR \<in> set f"
    using that nq by (simp add: toCSVLine_def csvField_def doubleQuotes_def)
  show "toCSVLine [f] = f"
    if "dquote \<notin> set f \<and> comma \<notin> set f \<and> LF \<notin> set f \<and> CR \<notin> set f"
    using that nq by (simp add: toCSVLine_def csvField_def)
  show "toCSVLine (f # g # gs) = toCSVLine [f] @ [comma] @ toCSVLine (g # gs)"
    by (simp add: toCSVLine_def)
next
  assume h: "(\<forall>x\<in>set flds. CR \<notin> set x) \<and> flds \<noteq> [] \<and> flds \<noteq> [[]]"
  then obtain f0 fs where flds: "flds = f0 # fs" by (cases flds) auto
  have loop: "parseCSV_loop (toCSVLine flds) [] [] [] False = ([], butlast flds, last flds)"
    using parseCSV_loop_line[of f0 fs "[]" "[]"] h flds by simp
  have nonempty: "last flds \<noteq> [] \<or> butlast flds \<noteq> []"
    using h flds by (cases fs) auto
  have "butlast flds @ [last flds] = flds" using h by simp
  with loop nonempty show "parseCSV (toCSVLine flds) = [flds]" by (simp add: parseCSV_def)
qed

text \<open>
  The witness is the example of the claim: the scorer \<open>Smith, "Ace"\<close> is written as
  \<open>"Smith, ""Ace"""\<close> and read back unchanged. A field with a carriage return and one
  with a line feed are quoted, a plain name is not, and a line of three fields is read
  back.
\<close>

theorem parseCSV_toCSVLine_roundtrip_witness:
  "toCSVLine [''Smith, '' @ [dquote] @ ''Ace'' @ [dquote]]
     = [dquote] @ ''Smith, '' @ [dquote, dquote] @ ''Ace'' @ [dquote, dquote, dquote]
   \<and> parseCSV (toCSVLine [''Smith, '' @ [dquote] @ ''Ace'' @ [dquote]])
     = [[''Smith, '' @ [dquote] @ ''Ace'' @ [dquote]]]
   \<and> toCSVLine [''a'' @ [CR] @ ''b''] = [dquote] @ ''a'' @ [CR] @ ''b'' @ [dquote]
   \<and> toCSVLine [''a'' @ [LF] @ ''b''] = [dquote] @ ''a'' @ [LF] @ ''b'' @ [dquote]
   \<and> toCSVLine [''Ann''] = ''Ann''
   \<and> toCSVLine [''Ann'', ''Smith, Ace''] = ''Ann,'' @ [dquote] @ ''Smith, Ace'' @ [dquote]
   \<and> parseCSV (toCSVLine [''Ann'', ''Smith, Ace'', ''a'' @ [LF] @ ''b''])
     = [[''Ann'', ''Smith, Ace'', ''a'' @ [LF] @ ''b'']]"
proof -
  have 1: "toCSVLine [''Smith, '' @ [dquote] @ ''Ace'' @ [dquote]]
     = [dquote] @ ''Smith, '' @ [dquote, dquote] @ ''Ace'' @ [dquote, dquote, dquote]"
    using parseCSV_toCSVLine_roundtrip[of "''Smith, '' @ [dquote] @ ''Ace'' @ [dquote]" "[]" "[]" "[[]]"]
    by simp
  have smith: "(\<forall>x\<in>set [''Smith, '' @ [dquote] @ ''Ace'' @ [dquote]]. CR \<notin> set x)
               \<and> [''Smith, '' @ [dquote] @ ''Ace'' @ [dquote]] \<noteq> []
               \<and> [''Smith, '' @ [dquote] @ ''Ace'' @ [dquote]] \<noteq> [[]]"
    by simp
  have 2: "parseCSV (toCSVLine [''Smith, '' @ [dquote] @ ''Ace'' @ [dquote]])
     = [[''Smith, '' @ [dquote] @ ''Ace'' @ [dquote]]]"
    using parseCSV_toCSVLine_roundtrip[of "[]" "[]" "[]" "[''Smith, '' @ [dquote] @ ''Ace'' @ [dquote]]"]
          smith
    by blast
  have 3: "toCSVLine [''a'' @ [CR] @ ''b''] = [dquote] @ ''a'' @ [CR] @ ''b'' @ [dquote]"
    using parseCSV_toCSVLine_roundtrip[of "''a'' @ [CR] @ ''b''" "[]" "[]" "[[]]"] by simp
  have 4: "toCSVLine [''a'' @ [LF] @ ''b''] = [dquote] @ ''a'' @ [LF] @ ''b'' @ [dquote]"
    using parseCSV_toCSVLine_roundtrip[of "''a'' @ [LF] @ ''b''" "[]" "[]" "[[]]"] by simp
  have 5: "toCSVLine [''Ann''] = ''Ann''"
    using parseCSV_toCSVLine_roundtrip[of "''Ann''" "[]" "[]" "[[]]"] by simp
  have 6: "toCSVLine [''Smith, Ace''] = [dquote] @ ''Smith, Ace'' @ [dquote]"
    using parseCSV_toCSVLine_roundtrip[of "''Smith, Ace''" "[]" "[]" "[[]]"] by simp
  have 7: "toCSVLine [''Ann'', ''Smith, Ace''] = toCSVLine [''Ann''] @ [comma] @ toCSVLine [''Smith, Ace'']"
    using parseCSV_toCSVLine_roundtrip[of "''Ann''" "''Smith, Ace''" "[]" "[[]]"] by blast
  have 8: "toCSVLine [''Ann'', ''Smith, Ace''] = ''Ann,'' @ [dquote] @ ''Smith, Ace'' @ [dquote]"
    by (simp add: 5 6 7)
  have three: "(\<forall>x\<in>set [''Ann'', ''Smith, Ace'', ''a'' @ [LF] @ ''b'']. CR \<notin> set x)
               \<and> [''Ann'', ''Smith, Ace'', ''a'' @ [LF] @ ''b''] \<noteq> []
               \<and> [''Ann'', ''Smith, Ace'', ''a'' @ [LF] @ ''b''] \<noteq> [[]]"
    by simp
  have 9: "parseCSV (toCSVLine [''Ann'', ''Smith, Ace'', ''a'' @ [LF] @ ''b''])
     = [[''Ann'', ''Smith, Ace'', ''a'' @ [LF] @ ''b'']]"
    using parseCSV_toCSVLine_roundtrip[of "[]" "[]" "[]" "[''Ann'', ''Smith, Ace'', ''a'' @ [LF] @ ''b'']"]
          three
    by blast
  from 1 2 3 4 5 8 9 show ?thesis by blast
qed

text \<open>
  The claim as stated fails on a field with a Windows line break: it contains a newline,
  and it comes back without its carriage return.
\<close>

theorem parseCSV_drops_CR_counterexample:
  "needsQuoting (''a'' @ [CR, LF] @ ''b'')
   \<and> LF \<in> set (''a'' @ [CR, LF] @ ''b'')
   \<and> parseCSV (toCSVLine [''a'' @ [CR, LF] @ ''b'']) = [[''a'' @ [LF] @ ''b'']]
   \<and> parseCSV (toCSVLine [''a'' @ [CR, LF] @ ''b'']) \<noteq> [[''a'' @ [CR, LF] @ ''b'']]"
  by (simp add: toCSVLine_def csvField_def needsQuoting_def doubleQuotes_def parseCSV_def)

section \<open>Properties of the store\<close>

lemma isRemoveItem_simps [simp]:
  "isRemoveItem (RemoveItem k) = True"
  "isRemoveItem (SetItem k b) = False"
  "isRemoveItem (SaveToStorage k) = False"
  "isRemoveItem CleanupOldData = False"
  by (simp_all add: isRemoveItem_def)

lemma isSaveToStorage_simps [simp]:
  "isSaveToStorage (RemoveItem k) = False"
  "isSaveToStorage (SetItem k b) = False"
  "isSaveToStorage (SaveToStorage k) = True"
  "isSaveToStorage CleanupOldData = False"
  by (simp_all add: isSaveToStorage_def)

lemma setItem_fst:
  "fst (setItem it w) = (usage (jsonLength w) (putItem it (localStorage w)) \<le> quota w)"
  by (simp add: setItem_def Let_def)

lemma setItem_trace:
  "trace (snd (setItem it w)) = trace w @ [SetItem (key it) (fst (setItem it w))]"
  by (simp add: setItem_def Let_def)

lemma setItem_frame:
  "quota (snd (setItem it w)) = quota w"
  "jsonLength (snd (setItem it w)) = jsonLength w"
  "dataManager (snd (setItem it w)) = dataManager w"
  "timerManager (snd (setItem it w)) = timerManager w"
  "persistenceManager (snd (setItem it w)) = persistenceManager w"
  "document (snd (setItem it w)) = document w"
  "teamAScore (snd (setItem it w)) = teamAScore w"
  "teamBScore (snd (setItem it w)) = teamBScore w"
  "currentEditID (snd (setItem it w)) = currentEditID w"
  "isRestoring (snd (setItem it w)) = isRestoring w"
  "abbaStart (snd (setItem it w)) = abbaStart w"
  "toLocaleString (snd (setItem it w)) = toLocaleString w"
  by (simp_all add: setItem_def Let_def)

lemma setItem_localStorage:
  "localStorage (snd (setItem it w)) = (if fst (setItem it w) then putItem it (localStorage w) else localStorage w)"
  by (simp add: setItem_def Let_def)

lemma removeItem_frame:
  "quota (removeItem k w) = quota w"
  "jsonLength (removeItem k w) = jsonLength w"
  "dataManager (removeItem k w) = dataManager w"
  "timerManager (removeItem k w) = timerManager w"
  "persistenceManager (removeItem k w) = persistenceManager w"
  "document (removeItem k w) = document w"
  "teamAScore (removeItem k w) = teamAScore w"
  "teamBScore (removeItem k w) = teamBScore w"
  "currentEditID (removeItem k w) = currentEditID w"
  "isRestoring (removeItem k w) = isRestoring w"
  "abbaStart (removeItem k w) = abbaStart w"
  "toLocaleString (removeItem k w) = toLocaleString w"
  by (simp_all add: removeItem_def)

lemma usage_putItem_dropItem:
  "usage len (putItem it (dropItem k ls)) \<le> usage len (putItem it ls)"
  by (cases it; cases k) (simp_all add: usage_def stored_def split: option.splits)

lemma putItem_idem: "putItem it (putItem it ls) = putItem it ls"
  by (cases it) simp_all

lemma cleanupOldData_frame:
  "quota (cleanupOldData now w) = quota w"
  "jsonLength (cleanupOldData now w) = jsonLength w"
  "dataManager (cleanupOldData now w) = dataManager w"
  "timerManager (cleanupOldData now w) = timerManager w"
  "persistenceManager (cleanupOldData now w) = persistenceManager w"
  "document (cleanupOldData now w) = document w"
  "teamAScore (cleanupOldData now w) = teamAScore w"
  "teamBScore (cleanupOldData now w) = teamBScore w"
  "currentEditID (cleanupOldData now w) = currentEditID w"
  "isRestoring (cleanupOldData now w) = isRestoring w"
  "abbaStart (cleanupOldData now w) = abbaStart w"
  "toLocaleString (cleanupOldData now w) = toLocaleString w"
  by (simp_all add: cleanupOldData_def Let_def removeItem_def split: option.splits)

lemma cleanupOldData_localStorage:
  "localStorage (cleanupOldData now w) =
     (let ls = localStorage w;
          ls1 = (case ls_teamsData ls of None \<Rightarrow> ls
                 | Some c \<Rightarrow> if now > tc_expiresAt c then dropItem TEAMS_DATA ls else ls)
      in case ls_gameState ls1 of None \<Rightarrow> ls1
         | Some g \<Rightarrow> if gs_timestamp g \<noteq> 0 \<and> now - gs_timestamp g > 7 * 24 * 60 * 60 * 1000
                      then dropItem GAME_STATE ls1 else ls1)"
  by (simp add: cleanupOldData_def Let_def removeItem_def split: option.splits)

lemma usage_putItem_cleanup:
  "usage len (putItem it (localStorage (cleanupOldData now w))) \<le> usage len (putItem it (localStorage w))"
proof -
  define ls where "ls = localStorage w"
  define ls1 where "ls1 = (case ls_teamsData ls of None \<Rightarrow> ls
                 | Some c \<Rightarrow> if now > tc_expiresAt c then dropItem TEAMS_DATA ls else ls)"
  define ls2 where "ls2 = (case ls_gameState ls1 of None \<Rightarrow> ls1
         | Some g \<Rightarrow> if gs_timestamp g \<noteq> 0 \<and> now - gs_timestamp g > 7 * 24 * 60 * 60 * 1000
                      then dropItem GAME_STATE ls1 else ls1)"
  have a: "usage len (putItem it ls1) \<le> usage len (putItem it ls)"
    unfolding ls1_def by (simp add: usage_putItem_dropItem del: dropItem.simps split: option.splits)
  have b: "usage len (putItem it ls2) \<le> usage len (putItem it ls1)"
    unfolding ls2_def by (simp add: usage_putItem_dropItem del: dropItem.simps split: option.splits)
  have "localStorage (cleanupOldData now w) = ls2"
    unfolding ls2_def ls1_def ls_def by (simp add: cleanupOldData_localStorage Let_def)
  with a b show ?thesis by (simp add: ls_def)
qed

lemma cleanupOldData_trace:
  "\<exists>rm. list_all isRemoveItem rm \<and> trace (cleanupOldData now w) = trace w @ CleanupOldData # rm"
  by (auto simp add: cleanupOldData_def Let_def removeItem_def split: option.splits)


lemma cleanupOldData_localStorage_cong:
  "localStorage w1 = localStorage w \<Longrightarrow>
   localStorage (cleanupOldData now w1) = localStorage (cleanupOldData now w)"
  by (simp add: cleanupOldData_localStorage)

lemma filter_removals: "list_all isRemoveItem rm \<Longrightarrow> filter (\<lambda>e. \<not> isRemoveItem e) rm = []"
  by (induction rm) auto

lemma saveToStorage_catch_fst:
  "fst (saveToStorage_catch now it w) =
     (usage (jsonLength w) (putItem it (localStorage (cleanupOldData now w))) \<le> quota w)"
  by (simp add: saveToStorage_catch_def setItem_fst cleanupOldData_frame)

lemma saveToStorage_catch_trace:
  "\<exists>rm. list_all isRemoveItem rm \<and>
     trace (snd (saveToStorage_catch now it w))
       = trace w @ CleanupOldData # rm @ [SetItem (key it) (fst (saveToStorage_catch now it w))]"
proof -
  obtain rm where rm: "list_all isRemoveItem rm" "trace (cleanupOldData now w) = trace w @ CleanupOldData # rm"
    using cleanupOldData_trace by blast
  then show ?thesis by (auto simp add: saveToStorage_catch_def setItem_trace)
qed

lemma saveToStorage_first_fails:
  assumes "\<not> fst (setItem it w)"
  shows "saveToStorage now it w
           = saveToStorage_catch now it
               (w\<lparr>trace := trace w @ [SaveToStorage (key it), SetItem (key it) False]\<rparr>)"
proof -
  from assms have nf: "(usage (jsonLength w) (putItem it (localStorage w)) \<le> quota w) = False"
    by (simp add: setItem_fst)
  show ?thesis by (simp add: saveToStorage_def setItem_def Let_def nf)
qed

lemma saveToStorage_first_succeeds:
  assumes "fst (setItem it w)"
  shows "fst (saveToStorage now it w)"
proof -
  define w0 where "w0 = w\<lparr>trace := trace w @ [SaveToStorage (key it)]\<rparr>"
  define w1 where "w1 = snd (setItem it w0)"
  define w2 where "w2 = w1\<lparr>persistenceManager := (persistenceManager w1)\<lparr>lastSaveTime := now\<rparr>\<rparr>"
  define w3 where "w3 = snd (setItem (LastSaveItem now) w2)"
  have first: "fst (setItem it w0)" using assms by (simp add: setItem_fst w0_def)
  have ls1: "localStorage w1 = putItem it (localStorage w)"
    using first by (simp add: w1_def setItem_localStorage) (simp add: w0_def)
  have fits: "usage (jsonLength w) (putItem it (localStorage w)) \<le> quota w"
    using assms by (simp add: setItem_fst)
  have eq: "saveToStorage now it w
              = (if fst (setItem (LastSaveItem now) w2) then (True, w3) else saveToStorage_catch now it w3)"
    using first by (simp add: saveToStorage_def Let_def split_def w0_def w1_def w2_def w3_def)
  show ?thesis
  proof (cases "fst (setItem (LastSaveItem now) w2)")
    case True
    with eq show ?thesis by simp
  next
    case False
    then have ls3: "localStorage w3 = putItem it (localStorage w)"
      by (simp add: w3_def setItem_localStorage) (simp add: w2_def ls1)
    have q: "quota w3 = quota w" "jsonLength w3 = jsonLength w"
      by (simp_all add: w3_def w2_def w1_def w0_def setItem_frame)
    have "usage (jsonLength w) (putItem it (localStorage (cleanupOldData now w3)))
            \<le> usage (jsonLength w) (putItem it (localStorage w3))"
      by (rule usage_putItem_cleanup)
    also have "\<dots> = usage (jsonLength w) (putItem it (localStorage w))"
      by (simp add: ls3 putItem_idem)
    finally have "fst (saveToStorage_catch now it w3)"
      using fits by (simp add: saveToStorage_catch_fst q)
    with eq False show ?thesis by simp
  qed
qed

lemma countSaves_append [simp]: "countSaves (a @ b) = countSaves a + countSaves b"
  by (simp add: countSaves_def)

lemma countSaves_simps [simp]:
  "countSaves [] = 0"
  "countSaves (e # tr) = (if isSaveToStorage e then 1 else 0) + countSaves tr"
  by (simp_all add: countSaves_def)

lemma countSaves_removals: "list_all isRemoveItem rm \<Longrightarrow> countSaves rm = 0"
  by (induction rm) (auto simp add: isRemoveItem_def isSaveToStorage_def split: event.splits)

lemma saveToStorage_catch_frame:
  "quota (snd (saveToStorage_catch now it w)) = quota w"
  "jsonLength (snd (saveToStorage_catch now it w)) = jsonLength w"
  "dataManager (snd (saveToStorage_catch now it w)) = dataManager w"
  "timerManager (snd (saveToStorage_catch now it w)) = timerManager w"
  "document (snd (saveToStorage_catch now it w)) = document w"
  "teamAScore (snd (saveToStorage_catch now it w)) = teamAScore w"
  "teamBScore (snd (saveToStorage_catch now it w)) = teamBScore w"
  "currentEditID (snd (saveToStorage_catch now it w)) = currentEditID w"
  "isRestoring (snd (saveToStorage_catch now it w)) = isRestoring w"
  "abbaStart (snd (saveToStorage_catch now it w)) = abbaStart w"
  "toLocaleString (snd (saveToStorage_catch now it w)) = toLocaleString w"
  by (simp_all add: saveToStorage_catch_def setItem_frame cleanupOldData_frame)

lemma saveToStorage_frame:
  "quota (snd (saveToStorage now it w)) = quota w"
  "jsonLength (snd (saveToStorage now it w)) = jsonLength w"
  "dataManager (snd (saveToStorage now it w)) = dataManager w"
  "timerManager (snd (saveToStorage now it w)) = timerManager w"
  "document (snd (saveToStorage now it w)) = document w"
  "teamAScore (snd (saveToStorage now it w)) = teamAScore w"
  "teamBScore (snd (saveToStorage now it w)) = teamBScore w"
  "currentEditID (snd (saveToStorage now it w)) = currentEditID w"
  "isRestoring (snd (saveToStorage now it w)) = isRestoring w"
  "abbaStart (snd (saveToStorage now it w)) = abbaStart w"
  "toLocaleString (snd (saveToStorage now it w)) = toLocaleString w"
  by (simp_all add: saveToStorage_def Let_def split_def saveToStorage_catch_frame setItem_frame)

lemma saveToStorage_catch_countSaves:
  "countSaves (trace (snd (saveToStorage_catch now it w))) = countSaves (trace w)"
  using saveToStorage_catch_trace[of now it w] by (auto simp add: countSaves_removals)

lemma saveToStorage_countSaves:
  "countSaves (trace (snd (saveToStorage now it w))) = countSaves (trace w) + 1"
  by (simp add: saveToStorage_def Let_def split_def saveToStorage_catch_countSaves setItem_trace)

lemma saveToStorage_catch_stored:
  "fst (saveToStorage_catch now it w) \<Longrightarrow>
   localStorage (snd (saveToStorage_catch now it w)) = putItem it (localStorage (cleanupOldData now w))"
  by (simp add: saveToStorage_catch_def setItem_localStorage)

lemma saveToStorage_gameState_stored:
  "fst (saveToStorage now (GameStateItem g) w) \<Longrightarrow>
   ls_gameState (localStorage (snd (saveToStorage now (GameStateItem g) w))) = Some g"
  by (auto simp add: saveToStorage_def Let_def split_def saveToStorage_catch_stored setItem_localStorage
      split: if_splits)


lemma saveCurrentState_clean:
  "\<not> isDirty (dataManager w) \<Longrightarrow> saveCurrentState now w = (None, w)"
  by (simp add: saveCurrentState_def)

lemma saveCurrentState_dirty:
  assumes "isDirty (dataManager w)"
  shows "fst (saveCurrentState now w) = Some (fst (saveGameState now (gameState (dataManager w)) w))"
    and "isDirty (dataManager (snd (saveCurrentState now w)))
           = (\<not> fst (saveGameState now (gameState (dataManager w)) w))"
    and "countSaves (trace (snd (saveCurrentState now w))) = countSaves (trace w) + 1"
    and "fst (saveGameState now (gameState (dataManager w)) w) \<Longrightarrow>
         ls_gameState (localStorage (snd (saveCurrentState now w)))
           = Some ((gameState (dataManager w))\<lparr>gs_timestamp := now\<rparr>)"
  using assms
  by (simp_all add: saveCurrentState_def saveGameState_def Let_def split_def saveToStorage_frame
        saveToStorage_countSaves saveToStorage_gameState_stored)

lemma saveCurrentState_frame:
  "gameState (dataManager (snd (saveCurrentState now w))) = gameState (dataManager w)"
  "scoreLogs (dataManager (snd (saveCurrentState now w))) = scoreLogs (dataManager w)"
  "teamsData (dataManager (snd (saveCurrentState now w))) = teamsData (dataManager w)"
  "document (snd (saveCurrentState now w)) = document w"
  "teamAScore (snd (saveCurrentState now w)) = teamAScore w"
  "teamBScore (snd (saveCurrentState now w)) = teamBScore w"
  "currentEditID (snd (saveCurrentState now w)) = currentEditID w"
  "isRestoring (snd (saveCurrentState now w)) = isRestoring w"
  "abbaStart (snd (saveCurrentState now w)) = abbaStart w"
  by (simp_all add: saveCurrentState_def saveGameState_def Let_def split_def saveToStorage_frame)

lemma stamped_iff:
  assumes "fst (setItem it w)"
  shows "fst (setItem (LastSaveItem now) (snd (setItem it w)))
           = (usage (jsonLength w) (putItem (LastSaveItem now) (putItem it (localStorage w))) \<le> quota w)"
  using assms by (simp add: setItem_fst setItem_frame setItem_localStorage)

lemma saveToStorage_stamped:
  assumes "fst (setItem it w)" "fst (setItem (LastSaveItem now) (snd (setItem it w)))"
  shows "saveToStorage now it w
           = (True, w\<lparr>trace := trace w @ [SaveToStorage (key it), SetItem (key it) True, SetItem LAST_SAVE True],
                       localStorage := putItem (LastSaveItem now) (putItem it (localStorage w)),
                       persistenceManager := (persistenceManager w)\<lparr>lastSaveTime := now\<rparr>\<rparr>)"
proof -
  from assms(1) have a: "(usage (jsonLength w) (putItem it (localStorage w)) \<le> quota w) = True"
    by (simp add: setItem_fst)
  from assms have b: "(usage (jsonLength w) (putItem (LastSaveItem now) (putItem it (localStorage w))) \<le> quota w) = True"
    by (simp add: stamped_iff)
  from a b show ?thesis by (simp add: saveToStorage_def setItem_def Let_def)
qed

lemma saveToStorage_not_stamped:
  assumes "fst (setItem it w)" "\<not> fst (setItem (LastSaveItem now) (snd (setItem it w)))"
  shows "saveToStorage now it w
           = saveToStorage_catch now it
               (w\<lparr>localStorage := putItem it (localStorage w),
                   persistenceManager := (persistenceManager w)\<lparr>lastSaveTime := now\<rparr>,
                   trace := trace w @ [SaveToStorage (key it), SetItem (key it) True, SetItem LAST_SAVE False]\<rparr>)"
proof -
  from assms(1) have a: "(usage (jsonLength w) (putItem it (localStorage w)) \<le> quota w) = True"
    by (simp add: setItem_fst)
  from assms have b: "(usage (jsonLength w) (putItem (LastSaveItem now) (putItem it (localStorage w))) \<le> quota w) = False"
    by (simp add: stamped_iff)
  from a b show ?thesis by (simp add: saveToStorage_def setItem_def Let_def)
qed

lemma saveToStorage_catch_localStorage:
  "localStorage (snd (saveToStorage_catch now it w))
     = (if fst (saveToStorage_catch now it w) then putItem it (localStorage (cleanupOldData now w))
        else localStorage (cleanupOldData now w))"
  by (simp add: saveToStorage_catch_def setItem_localStorage)

lemma saveToStorage_catch_persistenceManager:
  "persistenceManager (snd (saveToStorage_catch now it w)) = persistenceManager w"
  by (simp add: saveToStorage_catch_def setItem_frame cleanupOldData_frame)

lemma saveToStorage_store:
  "localStorage (snd (saveToStorage now it w)) =
     (if fst (setItem it w) then
        (if fst (setItem (LastSaveItem now) (snd (setItem it w)))
         then putItem (LastSaveItem now) (putItem it (localStorage w))
         else putItem it (localStorage (cleanupOldData now (snd (setItem it w)))))
      else (if fst (saveToStorage now it w) then putItem it (localStorage (cleanupOldData now w))
            else localStorage (cleanupOldData now w)))"
proof (cases "fst (setItem it w)")
  case first: True
  show ?thesis
  proof (cases "fst (setItem (LastSaveItem now) (snd (setItem it w)))")
    case True
    with first show ?thesis by (simp add: saveToStorage_stamped)
  next
    case False
    define w3 where "w3 = w\<lparr>localStorage := putItem it (localStorage w),
                   persistenceManager := (persistenceManager w)\<lparr>lastSaveTime := now\<rparr>,
                   trace := trace w @ [SaveToStorage (key it), SetItem (key it) True, SetItem LAST_SAVE False]\<rparr>"
    have eq: "saveToStorage now it w = saveToStorage_catch now it w3"
      using first False by (simp add: saveToStorage_not_stamped w3_def)
    have ok: "fst (saveToStorage_catch now it w3)"
      using saveToStorage_first_succeeds[OF first, of now] by (simp add: eq)
    have "localStorage (cleanupOldData now w3) = localStorage (cleanupOldData now (snd (setItem it w)))"
      by (rule cleanupOldData_localStorage_cong) (simp add: w3_def setItem_localStorage first)
    with first False ok show ?thesis by (simp add: eq saveToStorage_catch_localStorage)
  qed
next
  case False
  define w1 where "w1 = w\<lparr>trace := trace w @ [SaveToStorage (key it), SetItem (key it) False]\<rparr>"
  have eq: "saveToStorage now it w = saveToStorage_catch now it w1"
    using False by (simp add: saveToStorage_first_fails w1_def)
  have "localStorage (cleanupOldData now w1) = localStorage (cleanupOldData now w)"
    by (rule cleanupOldData_localStorage_cong) (simp add: w1_def)
  with False show ?thesis by (simp add: eq saveToStorage_catch_localStorage)
qed

lemma saveToStorage_lastSaveTime:
  "lastSaveTime (persistenceManager (snd (saveToStorage now it w)))
     = (if fst (setItem it w) then now else lastSaveTime (persistenceManager w))"
proof (cases "fst (setItem it w)")
  case first: True
  show ?thesis
  proof (cases "fst (setItem (LastSaveItem now) (snd (setItem it w)))")
    case True
    with first show ?thesis by (simp add: saveToStorage_stamped)
  next
    case False
    with first show ?thesis
      by (simp add: saveToStorage_not_stamped saveToStorage_catch_persistenceManager)
  qed
next
  case False
  then show ?thesis
    by (simp add: saveToStorage_first_fails saveToStorage_catch_persistenceManager)
qed

lemma saveToStorage_trace_first_succeeds:
  assumes "fst (setItem it w)"
  shows "filter (\<lambda>e. \<not> isRemoveItem e) (drop (length (trace w)) (trace (snd (saveToStorage now it w))))
           = (if fst (setItem (LastSaveItem now) (snd (setItem it w)))
              then [SaveToStorage (key it), SetItem (key it) True, SetItem LAST_SAVE True]
              else [SaveToStorage (key it), SetItem (key it) True, SetItem LAST_SAVE False,
                    CleanupOldData, SetItem (key it) True])"
proof (cases "fst (setItem (LastSaveItem now) (snd (setItem it w)))")
  case True
  with assms show ?thesis by (simp add: saveToStorage_stamped)
next
  case False
  define w3 where "w3 = w\<lparr>localStorage := putItem it (localStorage w),
                   persistenceManager := (persistenceManager w)\<lparr>lastSaveTime := now\<rparr>,
                   trace := trace w @ [SaveToStorage (key it), SetItem (key it) True, SetItem LAST_SAVE False]\<rparr>"
  have eq: "saveToStorage now it w = saveToStorage_catch now it w3"
    using assms False by (simp add: saveToStorage_not_stamped w3_def)
  have ok: "fst (saveToStorage_catch now it w3)"
    using saveToStorage_first_succeeds[OF assms, of now] by (simp add: eq)
  obtain rm where rm: "list_all isRemoveItem rm"
    "trace (snd (saveToStorage_catch now it w3))
       = trace w3 @ CleanupOldData # rm @ [SetItem (key it) (fst (saveToStorage_catch now it w3))]"
    using saveToStorage_catch_trace by blast
  with False ok show ?thesis by (simp add: eq w3_def filter_removals)
qed

text \<open>
  C5. When the first write of the item throws, \<open>saveToStorage\<close> runs \<open>cleanupOldData\<close>
  once and then writes the item exactly once more: apart from the removals the cleanup
  makes, the call consists of the failed write, one cleanup and one retry; it returns
  the outcome of the retry, which is the outcome of writing the item to the cleaned
  store; and it leaves the cleaned store, with the item in it when the retry succeeded.
  When the first write succeeds the call returns true and sets \<open>lastSaveTime\<close>: the store
  then holds the item and the time of the save, or, when the write of the save time
  throws, the item in the cleaned store (the retry rewrites the item, which still fits).
  So false is returned only after the first write and the retry have both failed. The
  cleanup removes the roster cache when it has expired and the game state when its
  timestamp (a time of saving, never zero) is more than seven days old, and nothing else.
\<close>

theorem saveToStorage_one_cleanup_one_retry:
  "(fst (setItem it w) \<longrightarrow>
        fst (saveToStorage now it w)
      \<and> lastSaveTime (persistenceManager (snd (saveToStorage now it w))) = now
      \<and> localStorage (snd (saveToStorage now it w))
          = (if fst (setItem (LastSaveItem now) (snd (setItem it w)))
             then putItem (LastSaveItem now) (putItem it (localStorage w))
             else putItem it (localStorage (cleanupOldData now (snd (setItem it w)))))
      \<and> filter (\<lambda>e. \<not> isRemoveItem e) (drop (length (trace w)) (trace (snd (saveToStorage now it w))))
          = (if fst (setItem (LastSaveItem now) (snd (setItem it w)))
             then [SaveToStorage (key it), SetItem (key it) True, SetItem LAST_SAVE True]
             else [SaveToStorage (key it), SetItem (key it) True, SetItem LAST_SAVE False,
                   CleanupOldData, SetItem (key it) True]))
   \<and> (\<not> fst (setItem it w) \<longrightarrow>
        fst (saveToStorage now it w) = fst (setItem it (cleanupOldData now w))
        \<and> filter (\<lambda>e. \<not> isRemoveItem e) (drop (length (trace w)) (trace (snd (saveToStorage now it w))))
            = [SaveToStorage (key it), SetItem (key it) False, CleanupOldData,
               SetItem (key it) (fst (saveToStorage now it w))]
        \<and> localStorage (snd (saveToStorage now it w))
            = (if fst (saveToStorage now it w) then putItem it (localStorage (cleanupOldData now w))
               else localStorage (cleanupOldData now w))
        \<and> lastSaveTime (persistenceManager (snd (saveToStorage now it w)))
            = lastSaveTime (persistenceManager w))
   \<and> localStorage (cleanupOldData now w) =
       (localStorage w)
         \<lparr>ls_teamsData :=
            (case ls_teamsData (localStorage w) of
               None \<Rightarrow> None
             | Some cached \<Rightarrow> if now > tc_expiresAt cached then None else Some cached),
          ls_gameState :=
            (case ls_gameState (localStorage w) of
               None \<Rightarrow> None
             | Some saved \<Rightarrow>
                 if gs_timestamp saved \<noteq> 0 \<and> now - gs_timestamp saved > 7 * 24 * 60 * 60 * 1000
                 then None else Some saved)\<rparr>"
proof (intro conjI impI)
  assume first: "fst (setItem it w)"
  then show "fst (saveToStorage now it w)" by (rule saveToStorage_first_succeeds)
  from first show "lastSaveTime (persistenceManager (snd (saveToStorage now it w))) = now"
    by (simp add: saveToStorage_lastSaveTime)
  from first show "localStorage (snd (saveToStorage now it w))
          = (if fst (setItem (LastSaveItem now) (snd (setItem it w)))
             then putItem (LastSaveItem now) (putItem it (localStorage w))
             else putItem it (localStorage (cleanupOldData now (snd (setItem it w)))))"
    by (simp only: saveToStorage_store if_True)
  from first show "filter (\<lambda>e. \<not> isRemoveItem e) (drop (length (trace w)) (trace (snd (saveToStorage now it w))))
          = (if fst (setItem (LastSaveItem now) (snd (setItem it w)))
             then [SaveToStorage (key it), SetItem (key it) True, SetItem LAST_SAVE True]
             else [SaveToStorage (key it), SetItem (key it) True, SetItem LAST_SAVE False,
                   CleanupOldData, SetItem (key it) True])"
    by (rule saveToStorage_trace_first_succeeds)
next
  assume f: "\<not> fst (setItem it w)"
  define w1 where "w1 = w\<lparr>trace := trace w @ [SaveToStorage (key it), SetItem (key it) False]\<rparr>"
  from f have eq: "saveToStorage now it w = saveToStorage_catch now it w1"
    by (simp add: saveToStorage_first_fails w1_def)
  have "localStorage (cleanupOldData now w1) = localStorage (cleanupOldData now w)"
    by (rule cleanupOldData_localStorage_cong) (simp add: w1_def)
  then show "fst (saveToStorage now it w) = fst (setItem it (cleanupOldData now w))"
    by (simp add: eq saveToStorage_catch_fst setItem_fst cleanupOldData_frame w1_def)
  obtain rm where rm: "list_all isRemoveItem rm"
    "trace (snd (saveToStorage_catch now it w1))
       = trace w1 @ CleanupOldData # rm @ [SetItem (key it) (fst (saveToStorage_catch now it w1))]"
    using saveToStorage_catch_trace by blast
  then show "filter (\<lambda>e. \<not> isRemoveItem e) (drop (length (trace w)) (trace (snd (saveToStorage now it w))))
            = [SaveToStorage (key it), SetItem (key it) False, CleanupOldData,
               SetItem (key it) (fst (saveToStorage now it w))]"
    by (simp add: eq w1_def filter_removals)
  from f show "localStorage (snd (saveToStorage now it w))
            = (if fst (saveToStorage now it w) then putItem it (localStorage (cleanupOldData now w))
               else localStorage (cleanupOldData now w))"
    by (simp only: saveToStorage_store if_False)
  from f show "lastSaveTime (persistenceManager (snd (saveToStorage now it w)))
            = lastSaveTime (persistenceManager w)"
    by (simp add: saveToStorage_lastSaveTime)
next
  show "localStorage (cleanupOldData now w) =
       (localStorage w)
         \<lparr>ls_teamsData :=
            (case ls_teamsData (localStorage w) of
               None \<Rightarrow> None
             | Some cached \<Rightarrow> if now > tc_expiresAt cached then None else Some cached),
          ls_gameState :=
            (case ls_gameState (localStorage w) of
               None \<Rightarrow> None
             | Some saved \<Rightarrow>
                 if gs_timestamp saved \<noteq> 0 \<and> now - gs_timestamp saved > 7 * 24 * 60 * 60 * 1000
                 then None else Some saved)\<rparr>"
    by (simp add: cleanupOldData_localStorage Let_def split: option.splits)
qed

text \<open>
  Four stores. A full store holding an expired roster cache: the first write of the
  timer's flag throws, the cleanup frees the cache, the retry succeeds and the store
  holds the flag alone. A full store whose cache has not expired: both writes throw, the
  result is false and the store is as before. A store with room: the flag and the time
  of the save are stored. A store with room for the flag only: the write of the save
  time throws and the flag stays.
\<close>

theorem saveToStorage_one_cleanup_one_retry_witness:
  "\<not> fst (setItem (TimerRunningItem True)
            (browser (emptyStorage\<lparr>ls_teamsData := Some \<lparr>tc_data = [], tc_timestamp = 0, tc_expiresAt = 100\<rparr>\<rparr>)
               10 blankPage))
   \<and> fst (setItem (TimerRunningItem True)
          (cleanupOldData 200
            (browser (emptyStorage\<lparr>ls_teamsData := Some \<lparr>tc_data = [], tc_timestamp = 0, tc_expiresAt = 100\<rparr>\<rparr>)
               10 blankPage)))
   \<and> fst (saveToStorage 200 (TimerRunningItem True)
          (browser (emptyStorage\<lparr>ls_teamsData := Some \<lparr>tc_data = [], tc_timestamp = 0, tc_expiresAt = 100\<rparr>\<rparr>)
             10 blankPage))
   \<and> localStorage (snd (saveToStorage 200 (TimerRunningItem True)
          (browser (emptyStorage\<lparr>ls_teamsData := Some \<lparr>tc_data = [], tc_timestamp = 0, tc_expiresAt = 100\<rparr>\<rparr>)
             10 blankPage)))
       = emptyStorage\<lparr>ls_timerRunning := Some True\<rparr>
   \<and> \<not> fst (setItem (TimerRunningItem True)
            (browser (emptyStorage\<lparr>ls_teamsData := Some \<lparr>tc_data = [], tc_timestamp = 0, tc_expiresAt = 900\<rparr>\<rparr>)
               10 blankPage))
   \<and> \<not> fst (saveToStorage 200 (TimerRunningItem True)
          (browser (emptyStorage\<lparr>ls_teamsData := Some \<lparr>tc_data = [], tc_timestamp = 0, tc_expiresAt = 900\<rparr>\<rparr>)
             10 blankPage))
   \<and> localStorage (snd (saveToStorage 200 (TimerRunningItem True)
          (browser (emptyStorage\<lparr>ls_teamsData := Some \<lparr>tc_data = [], tc_timestamp = 0, tc_expiresAt = 900\<rparr>\<rparr>)
             10 blankPage)))
       = emptyStorage\<lparr>ls_teamsData := Some \<lparr>tc_data = [], tc_timestamp = 0, tc_expiresAt = 900\<rparr>\<rparr>
   \<and> fst (setItem (TimerRunningItem True) (browser emptyStorage 100 blankPage))
   \<and> fst (saveToStorage 200 (TimerRunningItem True) (browser emptyStorage 100 blankPage))
   \<and> localStorage (snd (saveToStorage 200 (TimerRunningItem True) (browser emptyStorage 100 blankPage)))
       = emptyStorage\<lparr>ls_timerRunning := Some True, ls_lastSave := Some 200\<rparr>
   \<and> lastSaveTime (persistenceManager
        (snd (saveToStorage 200 (TimerRunningItem True) (browser emptyStorage 100 blankPage)))) = 200
   \<and> fst (setItem (TimerRunningItem True) (browser emptyStorage 10 blankPage))
   \<and> \<not> fst (setItem (LastSaveItem 200) (snd (setItem (TimerRunningItem True) (browser emptyStorage 10 blankPage))))
   \<and> fst (saveToStorage 200 (TimerRunningItem True) (browser emptyStorage 10 blankPage))
   \<and> localStorage (snd (saveToStorage 200 (TimerRunningItem True) (browser emptyStorage 10 blankPage)))
       = emptyStorage\<lparr>ls_timerRunning := Some True\<rparr>"
proof -
  define full where
    "full = browser (emptyStorage\<lparr>ls_teamsData := Some \<lparr>tc_data = [], tc_timestamp = 0, tc_expiresAt = 100\<rparr>\<rparr>)
              10 blankPage"
  define stuck where
    "stuck = browser (emptyStorage\<lparr>ls_teamsData := Some \<lparr>tc_data = [], tc_timestamp = 0, tc_expiresAt = 900\<rparr>\<rparr>)
              10 blankPage"
  define roomy where "roomy = browser emptyStorage 100 blankPage"
  define tight where "tight = browser emptyStorage 10 blankPage"
  have a: "\<not> fst (setItem (TimerRunningItem True) full)"
    by (simp add: full_def browser_def emptyStorage_def setItem_def usage_def stored_def)
  have b: "fst (setItem (TimerRunningItem True) (cleanupOldData 200 full))"
    by (simp add: full_def browser_def emptyStorage_def setItem_def usage_def stored_def
          cleanupOldData_def removeItem_def Let_def)
  have c: "localStorage (cleanupOldData 200 full) = emptyStorage"
    by (simp add: full_def browser_def emptyStorage_def cleanupOldData_def removeItem_def Let_def)
  have d: "\<not> fst (setItem (TimerRunningItem True) stuck)"
    by (simp add: stuck_def browser_def emptyStorage_def setItem_def usage_def stored_def)
  have e: "\<not> fst (setItem (TimerRunningItem True) (cleanupOldData 200 stuck))"
    by (simp add: stuck_def browser_def emptyStorage_def setItem_def usage_def stored_def
          cleanupOldData_def removeItem_def Let_def)
  have f: "localStorage (cleanupOldData 200 stuck)
             = emptyStorage\<lparr>ls_teamsData := Some \<lparr>tc_data = [], tc_timestamp = 0, tc_expiresAt = 900\<rparr>\<rparr>"
    by (simp add: stuck_def browser_def emptyStorage_def cleanupOldData_def removeItem_def Let_def)
  have g: "fst (setItem (TimerRunningItem True) roomy)"
    by (simp add: roomy_def browser_def emptyStorage_def setItem_def usage_def stored_def)
  have h: "fst (setItem (LastSaveItem 200) (snd (setItem (TimerRunningItem True) roomy)))"
    by (simp add: roomy_def browser_def emptyStorage_def setItem_def usage_def stored_def)
  have i: "localStorage roomy = emptyStorage"
    by (simp add: roomy_def browser_def)
  have j: "fst (setItem (TimerRunningItem True) tight)"
    by (simp add: tight_def browser_def emptyStorage_def setItem_def usage_def stored_def)
  have k: "\<not> fst (setItem (LastSaveItem 200) (snd (setItem (TimerRunningItem True) tight)))"
    by (simp add: tight_def browser_def emptyStorage_def setItem_def usage_def stored_def)
  have l: "localStorage (cleanupOldData 200 (snd (setItem (TimerRunningItem True) tight)))
             = emptyStorage\<lparr>ls_timerRunning := Some True\<rparr>"
    by (simp add: tight_def browser_def emptyStorage_def setItem_def usage_def stored_def
          cleanupOldData_def removeItem_def Let_def)
  from saveToStorage_one_cleanup_one_retry[of "TimerRunningItem True" full 200] a b c
  have 1: "fst (saveToStorage 200 (TimerRunningItem True) full)
           \<and> localStorage (snd (saveToStorage 200 (TimerRunningItem True) full))
               = emptyStorage\<lparr>ls_timerRunning := Some True\<rparr>"
    by simp
  from saveToStorage_one_cleanup_one_retry[of "TimerRunningItem True" stuck 200] d e f
  have 2: "\<not> fst (saveToStorage 200 (TimerRunningItem True) stuck)
           \<and> localStorage (snd (saveToStorage 200 (TimerRunningItem True) stuck))
               = emptyStorage\<lparr>ls_teamsData := Some \<lparr>tc_data = [], tc_timestamp = 0, tc_expiresAt = 900\<rparr>\<rparr>"
    by simp
  from saveToStorage_one_cleanup_one_retry[of "TimerRunningItem True" roomy 200] g h i
  have 3: "fst (saveToStorage 200 (TimerRunningItem True) roomy)
           \<and> localStorage (snd (saveToStorage 200 (TimerRunningItem True) roomy))
               = emptyStorage\<lparr>ls_timerRunning := Some True, ls_lastSave := Some 200\<rparr>
           \<and> lastSaveTime (persistenceManager (snd (saveToStorage 200 (TimerRunningItem True) roomy))) = 200"
    by simp
  from saveToStorage_one_cleanup_one_retry[of "TimerRunningItem True" tight 200] j k l
  have 4: "fst (saveToStorage 200 (TimerRunningItem True) tight)
           \<and> localStorage (snd (saveToStorage 200 (TimerRunningItem True) tight))
               = emptyStorage\<lparr>ls_timerRunning := Some True\<rparr>"
    by simp
  from a b d g j k 1 2 3 4 show ?thesis
    unfolding full_def stuck_def roomy_def tight_def by blast
qed

section \<open>Properties of saving the game state\<close>

text \<open>
  C6. \<open>saveCurrentState\<close> twice in a row, nothing in between. When the state is dirty
  and the first call succeeds, it stores the game state and clears the flag, the second
  call does nothing, and \<open>saveToStorage\<close> has been called exactly once. When the first
  call fails, the flag stays set and the next call saves again. When the state is not
  dirty, the call does nothing.
\<close>

theorem saveCurrentState_twice_writes_once:
  "(isDirty (dataManager w) \<and> fst (saveCurrentState t1 w) = Some True \<longrightarrow>
      ls_gameState (localStorage (snd (saveCurrentState t1 w)))
        = Some ((gameState (dataManager w))\<lparr>gs_timestamp := t1\<rparr>)
      \<and> \<not> isDirty (dataManager (snd (saveCurrentState t1 w)))
      \<and> saveCurrentState t2 (snd (saveCurrentState t1 w)) = (None, snd (saveCurrentState t1 w))
      \<and> countSaves (trace (snd (saveCurrentState t2 (snd (saveCurrentState t1 w)))))
          = countSaves (trace w) + 1)
   \<and> (isDirty (dataManager w) \<and> fst (saveCurrentState t1 w) = Some False \<longrightarrow>
      isDirty (dataManager (snd (saveCurrentState t1 w)))
      \<and> countSaves (trace (snd (saveCurrentState t1 w))) = countSaves (trace w) + 1
      \<and> countSaves (trace (snd (saveCurrentState t2 (snd (saveCurrentState t1 w)))))
          = countSaves (trace w) + 2)
   \<and> (\<not> isDirty (dataManager w) \<longrightarrow> saveCurrentState t1 w = (None, w))"
proof (intro conjI impI)
  assume a: "isDirty (dataManager w) \<and> fst (saveCurrentState t1 w) = Some True"
  then have d: "isDirty (dataManager w)" and ok: "fst (saveGameState t1 (gameState (dataManager w)) w)"
    using saveCurrentState_dirty(1)[of w t1] by auto
  show "ls_gameState (localStorage (snd (saveCurrentState t1 w)))
        = Some ((gameState (dataManager w))\<lparr>gs_timestamp := t1\<rparr>)"
    using d ok by (rule saveCurrentState_dirty(4))
  show clean: "\<not> isDirty (dataManager (snd (saveCurrentState t1 w)))"
    using saveCurrentState_dirty(2)[OF d, of t1] ok by simp
  then show second: "saveCurrentState t2 (snd (saveCurrentState t1 w)) = (None, snd (saveCurrentState t1 w))"
    by (rule saveCurrentState_clean)
  show "countSaves (trace (snd (saveCurrentState t2 (snd (saveCurrentState t1 w)))))
          = countSaves (trace w) + 1"
    using second saveCurrentState_dirty(3)[OF d, of t1] by simp
next
  assume a: "isDirty (dataManager w) \<and> fst (saveCurrentState t1 w) = Some False"
  then have d: "isDirty (dataManager w)" and ko: "\<not> fst (saveGameState t1 (gameState (dataManager w)) w)"
    using saveCurrentState_dirty(1)[of w t1] by auto
  show still: "isDirty (dataManager (snd (saveCurrentState t1 w)))"
    using saveCurrentState_dirty(2)[OF d, of t1] ko by simp
  show one: "countSaves (trace (snd (saveCurrentState t1 w))) = countSaves (trace w) + 1"
    using d by (rule saveCurrentState_dirty(3))
  show "countSaves (trace (snd (saveCurrentState t2 (snd (saveCurrentState t1 w)))))
          = countSaves (trace w) + 2"
    using saveCurrentState_dirty(3)[OF still, of t2] one by simp
next
  assume "\<not> isDirty (dataManager w)"
  then show "saveCurrentState t1 w = (None, w)" by (rule saveCurrentState_clean)
qed

lemma dirty_with_room:
  "isDirty (dataManager (markDirty (browser emptyStorage 100 blankPage)))
   \<and> fst (saveCurrentState 5 (markDirty (browser emptyStorage 100 blankPage))) = Some True"
  by (simp add: markDirty_def browser_def saveCurrentState_def saveGameState_def saveToStorage_def
     setItem_def usage_def stored_def emptyStorage_def Let_def split_def)

lemma dirty_without_room:
  "isDirty (dataManager (markDirty (browser emptyStorage 5 blankPage)))
   \<and> fst (saveCurrentState 5 (markDirty (browser emptyStorage 5 blankPage))) = Some False"
  by (simp add: markDirty_def browser_def saveCurrentState_def saveGameState_def saveToStorage_def
     saveToStorage_catch_def cleanupOldData_def
     setItem_def usage_def stored_def emptyStorage_def Let_def split_def)

theorem saveCurrentState_twice_writes_once_witness:
  "isDirty (dataManager (markDirty (browser emptyStorage 100 blankPage)))
   \<and> fst (saveCurrentState 5 (markDirty (browser emptyStorage 100 blankPage))) = Some True
   \<and> countSaves (trace (markDirty (browser emptyStorage 100 blankPage))) = 0
   \<and> countSaves (trace (snd (saveCurrentState 7
        (snd (saveCurrentState 5 (markDirty (browser emptyStorage 100 blankPage)))))))
       = countSaves (trace (markDirty (browser emptyStorage 100 blankPage))) + 1
   \<and> isDirty (dataManager (markDirty (browser emptyStorage 5 blankPage)))
   \<and> fst (saveCurrentState 5 (markDirty (browser emptyStorage 5 blankPage))) = Some False
   \<and> countSaves (trace (markDirty (browser emptyStorage 5 blankPage))) = 0
   \<and> countSaves (trace (snd (saveCurrentState 7
        (snd (saveCurrentState 5 (markDirty (browser emptyStorage 5 blankPage)))))))
       = countSaves (trace (markDirty (browser emptyStorage 5 blankPage))) + 2
   \<and> \<not> isDirty (dataManager (browser emptyStorage 100 blankPage))
   \<and> saveCurrentState 5 (browser emptyStorage 100 blankPage) = (None, browser emptyStorage 100 blankPage)"
proof -
  have t0: "countSaves (trace (markDirty (browser emptyStorage 100 blankPage))) = 0"
    "countSaves (trace (markDirty (browser emptyStorage 5 blankPage))) = 0"
    by (simp_all add: markDirty_def browser_def)
  have c: "\<not> isDirty (dataManager (browser emptyStorage 100 blankPage))" by (simp add: browser_def)
  from saveCurrentState_twice_writes_once[of "markDirty (browser emptyStorage 100 blankPage)" 5 7]
       saveCurrentState_twice_writes_once[of "markDirty (browser emptyStorage 5 blankPage)" 5 7]
       saveCurrentState_twice_writes_once[of "browser emptyStorage 100 blankPage" 5 7]
       dirty_with_room dirty_without_room t0 c
  show ?thesis by blast
qed

section \<open>Properties of the countdown timer\<close>

lemma updateDisplay_frame:
  "quota (updateDisplay now w) = quota w"
  "jsonLength (updateDisplay now w) = jsonLength w"
  "localStorage (updateDisplay now w) = localStorage w"
  "dataManager (updateDisplay now w) = dataManager w"
  "timerManager (updateDisplay now w) = timerManager w"
  "teamAScore (updateDisplay now w) = teamAScore w"
  "teamBScore (updateDisplay now w) = teamBScore w"
  "currentEditID (updateDisplay now w) = currentEditID w"
  "isRestoring (updateDisplay now w) = isRestoring w"
  "abbaStart (updateDisplay now w) = abbaStart w"
  "toLocaleString (updateDisplay now w) = toLocaleString w"
  by (simp_all add: updateDisplay_def split: option.splits)

lemma updateDisplay_document:
  "(document (updateDisplay now w))\<lparr>time := t, timerDisplay := d\<rparr>
     = (document w)\<lparr>time := t, timerDisplay := d\<rparr>"
  by (simp add: updateDisplay_def split: option.splits)

lemma updateDisplay_persisted:
  "timerStatePersisted (updateDisplay now w) = timerStatePersisted w"
  by (simp add: timerStatePersisted_def updateDisplay_frame)

lemma saveTimerState_frame:
  "quota (saveTimerState now w) = quota w"
  "jsonLength (saveTimerState now w) = jsonLength w"
  "dataManager (saveTimerState now w) = dataManager w"
  "timerManager (saveTimerState now w) = timerManager w"
  "document (saveTimerState now w) = document w"
  "teamAScore (saveTimerState now w) = teamAScore w"
  "teamBScore (saveTimerState now w) = teamBScore w"
  "currentEditID (saveTimerState now w) = currentEditID w"
  "isRestoring (saveTimerState now w) = isRestoring w"
  "abbaStart (saveTimerState now w) = abbaStart w"
  "toLocaleString (saveTimerState now w) = toLocaleString w"
  by (simp_all add: saveTimerState_def Let_def saveToStorage_frame)

lemma start_timerManager:
  assumes "\<not> isRunning (timerManager w)" "remainingTimeMs (timerManager w) = Some r"
  shows "timerManager (start t0 w)
           = (timerManager w)\<lparr>endTime := Some (t0 + r), remainingTimeMs := None, isRunning := True,
                               timerInterval := True\<rparr>"
  using assms by (simp add: start_def Let_def saveTimerState_frame updateDisplay_frame)







lemma stored_length: "length (stored ls) \<le> 6"
  by (simp add: stored_def split: option.splits)

lemma sum_list_bound: "(\<And>x. f x \<le> c) \<Longrightarrow> sum_list (map f xs) \<le> length xs * (c::nat)"
proof (induction xs)
  case Nil
  then show ?case by simp
next
  case (Cons x xs)
  have "f x \<le> c" by (rule Cons.prems)
  moreover have "sum_list (map f xs) \<le> length xs * c" using Cons by simp
  ultimately show ?case by simp
qed

lemma usage_bound:
  assumes "\<And>it. len it \<le> c"
  shows "usage len ls \<le> 6 * c"
proof -
  have "usage len ls \<le> length (stored ls) * c"
    unfolding usage_def using assms by (rule sum_list_bound)
  also have "\<dots> \<le> 6 * c" using stored_length[of ls] by simp
  finally show ?thesis .
qed

lemma setItem_room:
  assumes "\<And>i. jsonLength w i \<le> c" "6 * c \<le> quota w"
  shows "setItem it w
           = (True, w\<lparr>localStorage := putItem it (localStorage w),
                       trace := trace w @ [SetItem (key it) True]\<rparr>)"
proof -
  have "usage (jsonLength w) (putItem it (localStorage w)) \<le> 6 * c"
    using assms(1) by (rule usage_bound)
  with assms(2) show ?thesis by (simp add: setItem_def Let_def)
qed

lemma saveToStorage_room:
  assumes "\<And>i. jsonLength w i \<le> c" "6 * c \<le> quota w"
  shows "fst (saveToStorage now it w)"
    and "localStorage (snd (saveToStorage now it w))
           = putItem (LastSaveItem now) (putItem it (localStorage w))"
proof -
  define w0 where "w0 = w\<lparr>trace := trace w @ [SaveToStorage (key it)]\<rparr>"
  have r0: "\<And>i. jsonLength w0 i \<le> c" "6 * c \<le> quota w0" using assms by (simp_all add: w0_def)
  define w2 where "w2 = (snd (setItem it w0))\<lparr>persistenceManager :=
                            (persistenceManager (snd (setItem it w0)))\<lparr>lastSaveTime := now\<rparr>\<rparr>"
  have r2: "\<And>i. jsonLength w2 i \<le> c" "6 * c \<le> quota w2"
    using r0 by (simp_all add: w2_def setItem_frame)
  have f1: "fst (setItem it w0)" using setItem_room[OF r0, of it] by simp
  have f2: "fst (setItem (LastSaveItem now) w2)" using setItem_room[OF r2, of "LastSaveItem now"] by simp
  show "fst (saveToStorage now it w)"
    using f1 f2 unfolding w2_def w0_def by (simp add: saveToStorage_def Let_def split_def)
  show "localStorage (snd (saveToStorage now it w))
           = putItem (LastSaveItem now) (putItem it (localStorage w))"
    using f1 f2 unfolding w2_def w0_def
    by (simp add: saveToStorage_def Let_def split_def setItem_localStorage)
qed

lemma saveTimerState_room:
  assumes "\<And>i. jsonLength w i \<le> c" "6 * c \<le> quota w"
  shows "timerStatePersisted (saveTimerState now w)"
proof -
  define w1 where "w1 = snd (saveToStorage now (TimerEndTimeItem (endTime (timerManager w))) w)"
  define w2 where "w2 = snd (saveToStorage now (TimerRunningItem (isRunning (timerManager w1))) w1)"
  define w3 where "w3 = snd (saveToStorage now (TimerRemainingTimeItem (remainingTimeMs (timerManager w2))) w2)"
  have r1: "\<And>i. jsonLength w1 i \<le> c" "6 * c \<le> quota w1"
    using assms by (simp_all add: w1_def saveToStorage_frame)
  have r2: "\<And>i. jsonLength w2 i \<le> c" "6 * c \<le> quota w2"
    using r1 by (simp_all add: w2_def saveToStorage_frame)
  have t: "timerManager w1 = timerManager w" "timerManager w2 = timerManager w" "timerManager w3 = timerManager w"
    by (simp_all add: w1_def w2_def w3_def saveToStorage_frame)
  have l1: "localStorage w1 = putItem (LastSaveItem now) (putItem (TimerEndTimeItem (endTime (timerManager w))) (localStorage w))"
    unfolding w1_def using assms by (rule saveToStorage_room(2))
  have l2: "localStorage w2 = putItem (LastSaveItem now) (putItem (TimerRunningItem (isRunning (timerManager w1))) (localStorage w1))"
    unfolding w2_def using r1 by (rule saveToStorage_room(2))
  have l3: "localStorage w3 = putItem (LastSaveItem now) (putItem (TimerRemainingTimeItem (remainingTimeMs (timerManager w2))) (localStorage w2))"
    unfolding w3_def using r2 by (rule saveToStorage_room(2))
  have "saveTimerState now w = w3"
    by (simp add: saveTimerState_def Let_def w1_def w2_def w3_def)
  then show ?thesis by (simp add: timerStatePersisted_def l1 l2 l3 t)
qed

lemma stop_frame:
  "quota (stop now w) = quota w"
  "jsonLength (stop now w) = jsonLength w"
  "dataManager (stop now w) = dataManager w"
  "teamAScore (stop now w) = teamAScore w"
  "teamBScore (stop now w) = teamBScore w"
  "currentEditID (stop now w) = currentEditID w"
  "isRestoring (stop now w) = isRestoring w"
  "abbaStart (stop now w) = abbaStart w"
  "toLocaleString (stop now w) = toLocaleString w"
  by (simp_all add: stop_def Let_def saveTimerState_frame updateDisplay_frame)

lemma start_frame:
  "quota (start now w) = quota w"
  "jsonLength (start now w) = jsonLength w"
  "dataManager (start now w) = dataManager w"
  "teamAScore (start now w) = teamAScore w"
  "teamBScore (start now w) = teamBScore w"
  "currentEditID (start now w) = currentEditID w"
  "isRestoring (start now w) = isRestoring w"
  "abbaStart (start now w) = abbaStart w"
  "toLocaleString (start now w) = toLocaleString w"
  by (simp_all add: start_def Let_def saveTimerState_frame updateDisplay_frame)

lemma reset_frame:
  "quota (reset m now w) = quota w"
  "jsonLength (reset m now w) = jsonLength w"
  "dataManager (reset m now w) = dataManager w"
  "teamAScore (reset m now w) = teamAScore w"
  "teamBScore (reset m now w) = teamBScore w"
  "currentEditID (reset m now w) = currentEditID w"
  "isRestoring (reset m now w) = isRestoring w"
  "abbaStart (reset m now w) = abbaStart w"
  "toLocaleString (reset m now w) = toLocaleString w"
  by (simp_all add: reset_def Let_def saveTimerState_frame stop_frame updateDisplay_frame)

lemma newTimerManager_frame:
  "quota (newTimerManager now w) = quota w"
  "jsonLength (newTimerManager now w) = jsonLength w"
  "dataManager (newTimerManager now w) = dataManager w"
  "teamAScore (newTimerManager now w) = teamAScore w"
  "teamBScore (newTimerManager now w) = teamBScore w"
  "currentEditID (newTimerManager now w) = currentEditID w"
  "isRestoring (newTimerManager now w) = isRestoring w"
  "abbaStart (newTimerManager now w) = abbaStart w"
  "toLocaleString (newTimerManager now w) = toLocaleString w"
  by (simp_all add: newTimerManager_def loadTimerState_def Let_def setRemainingTime_def
        stop_frame start_frame reset_frame updateDisplay_frame split: option.splits)

lemma stop_document:
  "(document (stop now w))\<lparr>time := t, timerDisplay := d\<rparr>
     = (document w)\<lparr>time := t, timerDisplay := d\<rparr>"
  by (simp add: stop_def Let_def updateDisplay_document saveTimerState_frame)

lemma start_document:
  "(document (start now w))\<lparr>time := t, timerDisplay := d\<rparr>
     = (document w)\<lparr>time := t, timerDisplay := d\<rparr>"
  by (simp add: start_def Let_def updateDisplay_document saveTimerState_frame)

lemma reset_document:
  "(document (reset m now w))\<lparr>time := t, timerDisplay := d\<rparr>
     = (document w)\<lparr>time := t, timerDisplay := d\<rparr>"
  by (simp add: reset_def Let_def updateDisplay_document saveTimerState_frame stop_document)

lemma newTimerManager_document:
  "(document (newTimerManager now w))\<lparr>time := t, timerDisplay := d\<rparr>
     = (document w)\<lparr>time := t, timerDisplay := d\<rparr>"
  by (simp add: newTimerManager_def loadTimerState_def Let_def setRemainingTime_def
        updateDisplay_document stop_document start_document reset_document split: option.splits)


lemma stop_persisted:
  assumes "\<And>i. jsonLength w i \<le> c" "6 * c \<le> quota w" "isRunning (timerManager w)"
  shows "timerStatePersisted (stop now w)"
proof -
  define tm2 where "tm2 = (let tm = timerManager w;
                tm1 = (case endTime tm of
                         None \<Rightarrow> tm
                       | Some e \<Rightarrow> tm\<lparr>remainingTimeMs := Some (max 0 (tr_total (getTimeRemaining now e)))\<rparr>)
             in tm1\<lparr>isRunning := False, endTime := None, timerInterval := False\<rparr>)"
  define wa where "wa = w\<lparr>timerManager := tm2\<rparr>"
  have ra: "\<And>i. jsonLength wa i \<le> c" "6 * c \<le> quota wa" using assms by (simp_all add: wa_def)
  have p: "timerStatePersisted (saveTimerState now wa)" using ra by (rule saveTimerState_room)
  have "stop now w = updateDisplay now (saveTimerState now wa)"
    using assms(3) by (simp add: stop_def Let_def wa_def tm2_def)
  with p show ?thesis by (simp add: updateDisplay_persisted)
qed

lemma stop_timerManager:
  assumes "isRunning (timerManager w)" "endTime (timerManager w) = Some e"
  shows "timerManager (stop now w)
           = (timerManager w)\<lparr>remainingTimeMs := Some (max 0 (tr_total (getTimeRemaining now e))),
                               isRunning := False, endTime := None, timerInterval := False\<rparr>"
  using assms by (simp add: stop_def Let_def saveTimerState_frame updateDisplay_frame)

lemma reload_nothing_usable:
  assumes "ls_timerRunning (localStorage w) \<noteq> Some True"
      and "ls_timerRemainingTime (localStorage w) \<in> {None, Some None, Some (Some 0)}"
  shows "timerManager (newTimerManager t1 w)
           = \<lparr>timerInterval = False, isRunning = False, endTime = None,
              remainingTimeMs = Some (DEFAULT_TIMER_MINUTES * 60 * 1000),
              defaultMinutes = DEFAULT_TIMER_MINUTES\<rparr>"
  using assms
  by (auto simp add: newTimerManager_def loadTimerState_def loadFromStorage_def Let_def reset_def
        stop_def saveTimerState_frame updateDisplay_frame split: option.splits)


lemma browser_room:
  "\<And>i. jsonLength (browser emptyStorage 1000 blankPage) i \<le> 10"
  "60 \<le> quota (browser emptyStorage 1000 blankPage)"
  by (simp_all add: browser_def)

lemma fresh_timer:
  "timerManager (newTimerManager 1000 (browser emptyStorage 1000 blankPage))
     = \<lparr>timerInterval = False, isRunning = False, endTime = None,
        remainingTimeMs = Some (100 * 60 * 1000), defaultMinutes = 100\<rparr>"
  using reload_nothing_usable[of "browser emptyStorage 1000 blankPage" 1000]
  by (simp add: browser_def emptyStorage_def DEFAULT_TIMER_MINUTES_def)

lemma fresh_timer_room:
  "\<And>i. jsonLength (newTimerManager 1000 (browser emptyStorage 1000 blankPage)) i \<le> 10"
  "60 \<le> quota (newTimerManager 1000 (browser emptyStorage 1000 blankPage))"
  by (simp_all add: newTimerManager_frame browser_room)



lemma running_timer:
  "timerManager (start 5000 (newTimerManager 1000 (browser emptyStorage 1000 blankPage)))
     = \<lparr>timerInterval = True, isRunning = True, endTime = Some 6005000,
        remainingTimeMs = None, defaultMinutes = 100\<rparr>"
  using start_timerManager[of "newTimerManager 1000 (browser emptyStorage 1000 blankPage)" "100 * 60 * 1000" 5000]
  by (simp add: fresh_timer)

lemma running_timer_room:
  "\<And>i. jsonLength (start 5000 (newTimerManager 1000 (browser emptyStorage 1000 blankPage))) i \<le> 10"
  "60 \<le> quota (start 5000 (newTimerManager 1000 (browser emptyStorage 1000 blankPage)))"
  by (simp_all add: start_frame fresh_timer_room)

lemma timerTick_expired:
  assumes "timerInterval (timerManager w)" "isRunning (timerManager w)"
      and "endTime (timerManager w) = Some e" "tr_total (getTimeRemaining now e) \<le> 0"
  shows "timerTick now w = stop now (updateDisplay now w)"
  using assms by (simp add: timerTick_def Let_def updateDisplay_frame)

lemma expired_tick:
  "timerTick 6006000 (start 5000 (newTimerManager 1000 (browser emptyStorage 1000 blankPage)))
     = stop 6006000 (updateDisplay 6006000
         (start 5000 (newTimerManager 1000 (browser emptyStorage 1000 blankPage))))"
  by (rule timerTick_expired[where e = 6005000])
     (simp_all add: running_timer getTimeRemaining_def dateParse_def)

lemma expired_timer:
  "timerManager (timerTick 6006000 (start 5000 (newTimerManager 1000 (browser emptyStorage 1000 blankPage))))
     = \<lparr>timerInterval = False, isRunning = False, endTime = None,
        remainingTimeMs = Some 0, defaultMinutes = 100\<rparr>"
  using stop_timerManager[of "updateDisplay 6006000
          (start 5000 (newTimerManager 1000 (browser emptyStorage 1000 blankPage)))" 6005000 6006000]
  by (simp add: expired_tick updateDisplay_frame running_timer getTimeRemaining_def dateParse_def)

lemma expired_timer_persisted:
  "timerStatePersisted (timerTick 6006000 (start 5000 (newTimerManager 1000 (browser emptyStorage 1000 blankPage))))"
  unfolding expired_tick
  by (rule stop_persisted[where c = 10]) (simp_all add: updateDisplay_frame running_timer running_timer_room)

text \<open>
  C4. The claim fails on the code at a remaining time of zero. A fresh timer is started
  at 5000 with 100 minutes; the tick after its end time stops it, which stores a
  remaining time of exactly 0 with the running flag false and no end time. A page load
  then does not restore the paused timer at 0: \<open>if (storedRemainingTime)\<close> skips the
  stored 0 and the timer is reset to 100 minutes.
\<close>

theorem paused_at_zero_reloads_as_default:
  "remainingTimeMs (timerManager
      (timerTick 6006000 (start 5000 (newTimerManager 1000 (browser emptyStorage 1000 blankPage)))))
     = Some 0
   \<and> \<not> isRunning (timerManager
      (timerTick 6006000 (start 5000 (newTimerManager 1000 (browser emptyStorage 1000 blankPage)))))
   \<and> ls_timerEndTime (localStorage
      (timerTick 6006000 (start 5000 (newTimerManager 1000 (browser emptyStorage 1000 blankPage)))))
     = Some None
   \<and> ls_timerRunning (localStorage
      (timerTick 6006000 (start 5000 (newTimerManager 1000 (browser emptyStorage 1000 blankPage)))))
     = Some False
   \<and> ls_timerRemainingTime (localStorage
      (timerTick 6006000 (start 5000 (newTimerManager 1000 (browser emptyStorage 1000 blankPage)))))
     = Some (Some 0)
   \<and> remainingTimeMs (timerManager (newTimerManager 6100000
      (timerTick 6006000 (start 5000 (newTimerManager 1000 (browser emptyStorage 1000 blankPage))))))
     = Some (100 * 60 * 1000)"
proof -
  have slots:
    "ls_timerEndTime (localStorage (timerTick 6006000 (start 5000 (newTimerManager 1000 (browser emptyStorage 1000 blankPage))))) = Some None"
    "ls_timerRunning (localStorage (timerTick 6006000 (start 5000 (newTimerManager 1000 (browser emptyStorage 1000 blankPage))))) = Some False"
    "ls_timerRemainingTime (localStorage (timerTick 6006000 (start 5000 (newTimerManager 1000 (browser emptyStorage 1000 blankPage))))) = Some (Some 0)"
    using expired_timer_persisted by (simp_all add: timerStatePersisted_def expired_timer)
  have "timerManager (newTimerManager 6100000
          (timerTick 6006000 (start 5000 (newTimerManager 1000 (browser emptyStorage 1000 blankPage)))))
     = \<lparr>timerInterval = False, isRunning = False, endTime = None,
              remainingTimeMs = Some (DEFAULT_TIMER_MINUTES * 60 * 1000),
              defaultMinutes = DEFAULT_TIMER_MINUTES\<rparr>"
    by (rule reload_nothing_usable) (simp_all add: slots)
  then show ?thesis
    by (simp add: expired_timer slots DEFAULT_TIMER_MINUTES_def)
qed

section \<open>Properties of the point log\<close>

lemma appendChild_frame:
  "teamAScore (appendChild r w) = teamAScore w"
  "teamBScore (appendChild r w) = teamBScore w"
  "dataManager (appendChild r w) = dataManager w"
  "abbaStart (appendChild r w) = abbaStart w"
  "currentEditID (appendChild r w) = currentEditID w"
  by (simp_all add: appendChild_def setRows_def split: option.splits)

lemma updateAbbaColumn_frame:
  "teamAScore (updateAbbaColumn w) = teamAScore w"
  "teamBScore (updateAbbaColumn w) = teamBScore w"
  "dataManager (updateAbbaColumn w) = dataManager w"
  "abbaStart (updateAbbaColumn w) = abbaStart w"
  "currentEditID (updateAbbaColumn w) = currentEditID w"
  by (simp_all add: updateAbbaColumn_def setRows_def split: option.splits)

lemma rebuildTableAndCounters_loop_counts:
  "teamAScore (rebuildTableAndCounters_loop a logs idx w)
     = teamAScore w + length (filter (\<lambda>e. Team e = a) logs)
   \<and> teamBScore (rebuildTableAndCounters_loop a logs idx w)
     = teamBScore w + length (filter (\<lambda>e. Team e \<noteq> a) logs)
   \<and> dataManager (rebuildTableAndCounters_loop a logs idx w) = dataManager w"
proof (induction logs arbitrary: idx w)
  case Nil
  then show ?case by simp
next
  case (Cons e logs)
  show ?case
  proof (cases "Team e = a")
    case True
    then show ?thesis by (simp add: Let_def Cons.IH appendChild_frame)
  next
    case False
    then show ?thesis by (simp add: Let_def Cons.IH appendChild_frame)
  qed
qed

lemma filter_partition_length:
  "length (filter P xs) + length (filter (\<lambda>x. \<not> P x) xs) = length xs"
  by (induction xs) auto

lemma filter_other_name:
  "a \<noteq> b \<Longrightarrow> list_all (\<lambda>e. Team e = a \<or> Team e = b) logs \<Longrightarrow>
   filter (\<lambda>e. Team e \<noteq> a) logs = filter (\<lambda>e. Team e = b) logs"
  by (induction logs) auto

lemma rebuildTableAndCounters_scores:
  assumes "scoringTableBody (document s) \<noteq> None"
  shows "teamAScore (rebuildTableAndCounters s)
           = length (filter (\<lambda>e. Team e = selectValue (teamA (document s))) (scoreLogs (dataManager s)))"
    and "teamBScore (rebuildTableAndCounters s)
           = length (filter (\<lambda>e. Team e \<noteq> selectValue (teamA (document s))) (scoreLogs (dataManager s)))"
    and "dataManager (rebuildTableAndCounters s) = dataManager s"
proof -
  define a where "a = selectValue (teamA (document s))"
  define logs where "logs = scoreLogs (dataManager s)"
  from assms obtain rows where rows: "scoringTableBody (document s) = Some rows" by auto
  define s1 where "s1 = setRows [] (s\<lparr>teamAScore := 0, teamBScore := 0\<rparr>)"
  have eq: "rebuildTableAndCounters s = updateAbbaColumn (rebuildTableAndCounters_loop a logs 0 s1)"
    by (simp add: rebuildTableAndCounters_def rows Let_def s1_def a_def logs_def setRows_def)
  have s1: "teamAScore s1 = 0" "teamBScore s1 = 0" "dataManager s1 = dataManager s"
    by (simp_all add: s1_def setRows_def)
  note loop = rebuildTableAndCounters_loop_counts[of a logs 0 s1]
  show "teamAScore (rebuildTableAndCounters s)
           = length (filter (\<lambda>e. Team e = selectValue (teamA (document s))) (scoreLogs (dataManager s)))"
    using loop by (simp add: eq updateAbbaColumn_frame s1 a_def logs_def)
  show "teamBScore (rebuildTableAndCounters s)
           = length (filter (\<lambda>e. Team e \<noteq> selectValue (teamA (document s))) (scoreLogs (dataManager s)))"
    using loop by (simp add: eq updateAbbaColumn_frame s1 a_def logs_def)
  show "dataManager (rebuildTableAndCounters s) = dataManager s"
    using loop by (simp add: eq updateAbbaColumn_frame s1)
qed

text \<open>
  C1, as the code has it. After any sequence of appends, edits and deletes, on a page
  that has the table body, \<open>rebuildTableAndCounters\<close> leaves the log as it is and sets
  \<open>teamAScore\<close> to the number of entries whose team is the name selected for Team A
  and \<open>teamBScore\<close> to the number of all other entries, so that the two add up to the
  length of the log. \<open>teamBScore\<close> is the number of entries carrying Team B's name when
  the two selected names differ and every entry carries one of them.
\<close>

theorem rebuildTableAndCounters_counts:
  assumes "scoringTableBody (document (run acts w)) \<noteq> None"
  shows "teamAScore (rebuildTableAndCounters (run acts w))
           = length (filter (\<lambda>e. Team e = selectValue (teamA (document (run acts w))))
                            (scoreLogs (dataManager (run acts w))))
         \<and> teamBScore (rebuildTableAndCounters (run acts w))
           = length (filter (\<lambda>e. Team e \<noteq> selectValue (teamA (document (run acts w))))
                            (scoreLogs (dataManager (run acts w))))
         \<and> teamAScore (rebuildTableAndCounters (run acts w)) + teamBScore (rebuildTableAndCounters (run acts w))
           = length (scoreLogs (dataManager (run acts w)))
         \<and> scoreLogs (dataManager (rebuildTableAndCounters (run acts w))) = scoreLogs (dataManager (run acts w))
         \<and> (selectValue (teamA (document (run acts w))) \<noteq> selectValue (teamB (document (run acts w)))
            \<and> list_all (\<lambda>e. Team e = selectValue (teamA (document (run acts w)))
                            \<or> Team e = selectValue (teamB (document (run acts w))))
                        (scoreLogs (dataManager (run acts w)))
            \<longrightarrow> teamBScore (rebuildTableAndCounters (run acts w))
                  = length (filter (\<lambda>e. Team e = selectValue (teamB (document (run acts w))))
                                   (scoreLogs (dataManager (run acts w)))))"
proof -
  define s where "s = run acts w"
  define a where "a = selectValue (teamA (document s))"
  define logs where "logs = scoreLogs (dataManager s)"
  have t: "scoringTableBody (document s) \<noteq> None" using assms by (simp add: s_def)
  have A: "teamAScore (rebuildTableAndCounters s) = length (filter (\<lambda>e. Team e = a) logs)"
    using rebuildTableAndCounters_scores(1)[OF t] by (simp add: a_def logs_def)
  have B: "teamBScore (rebuildTableAndCounters s) = length (filter (\<lambda>e. Team e \<noteq> a) logs)"
    using rebuildTableAndCounters_scores(2)[OF t] by (simp add: a_def logs_def)
  have D: "scoreLogs (dataManager (rebuildTableAndCounters s)) = logs"
    using rebuildTableAndCounters_scores(3)[OF t] by (simp add: logs_def)
  have S: "teamAScore (rebuildTableAndCounters s) + teamBScore (rebuildTableAndCounters s) = length logs"
    using filter_partition_length[of "\<lambda>e. Team e = a" logs] by (simp add: A B)
  have O: "teamBScore (rebuildTableAndCounters s)
             = length (filter (\<lambda>e. Team e = selectValue (teamB (document s))) logs)"
    if "a \<noteq> selectValue (teamB (document s))
        \<and> list_all (\<lambda>e. Team e = a \<or> Team e = selectValue (teamB (document s))) logs"
    using that filter_other_name[of a "selectValue (teamB (document s))" logs] by (simp add: B)
  from A B S D O show ?thesis
    unfolding s_def a_def logs_def by blast
qed

lemma unnamed_teams_state:
  "scoreLogs (dataManager (run [(11, Append ''A'' ''x'' ''y''), (12, Append ''B'' ''u'' ''v'')]
                               (browser emptyStorage 1000 blankPage)))
     = [\<lparr>scoreID = ''11'', GameID = '' vs '', Time = ''now'', Team = [], Score = ''x'', Assist = ''y''\<rparr>,
        \<lparr>scoreID = ''12'', GameID = '' vs '', Time = ''now'', Team = [], Score = ''u'', Assist = ''v''\<rparr>]"
  "document (run [(11, Append ''A'' ''x'' ''y''), (12, Append ''B'' ''u'' ''v'')]
                               (browser emptyStorage 1000 blankPage))
     = blankPage\<lparr>scorePopup := Some (Some ''B''),
          scoringTableBody := Some [\<lparr>data_score_id = ''11'', cells = [''M'', ''x'', ''y'', ''1:0'', [], [], ''Edit'']\<rparr>,
              \<lparr>data_score_id = ''12'', cells = [''F'', ''u'', ''v'', ''1:1'', [], [], ''Edit'']\<rparr>]\<rparr>"
  by (simp_all add: browser_def blankPage_def openPopup_def handleSaveScore_def addNewScore_def
        createLogObject_def addScoreLog_def markDirty_def addScoreToTable_def appendChild_def
        setRows_def createScoreRow_def closePopup_def selectValue_def numberToString_def
        digitChar_def computeAbbaForIndex_def Let_def)


lemma autoSave_fields:
  "\<not> isRestoring w \<Longrightarrow> scoreLogs (dataManager (autoSave now w)) = scoreLogs (dataManager w)"
  "\<not> isRestoring w \<Longrightarrow> document (autoSave now w) = document w"
  "\<not> isRestoring w \<Longrightarrow> teamAScore (autoSave now w) = teamAScore w"
  "\<not> isRestoring w \<Longrightarrow> teamBScore (autoSave now w) = teamBScore w"
  "\<not> isRestoring w \<Longrightarrow> currentEditID (autoSave now w) = currentEditID w"
  by (simp_all add: autoSave_def Let_def saveCurrentState_frame updateGameState_def markDirty_def)

lemma played_state:
  "scoreLogs (dataManager (run [(11, Append ''A'' ''x'' ''y''), (12, Append ''B'' ''u'' ''v''),
                                (13, Edit ''11'' ''p'' ''q''), (14, Delete ''12'')]
                               (browser emptyStorage 1000 redBluePage)))
     = [\<lparr>scoreID = ''11'', GameID = ''Red vs Blue'', Time = ''now'', Team = ''Red'', Score = ''p'', Assist = ''q''\<rparr>]"
  "scoringTableBody (document (run [(11, Append ''A'' ''x'' ''y''), (12, Append ''B'' ''u'' ''v''),
                                (13, Edit ''11'' ''p'' ''q''), (14, Delete ''12'')]
                               (browser emptyStorage 1000 redBluePage)))
     = Some [\<lparr>data_score_id = ''11'', cells = [''M'', ''p'', ''q'', ''1:0'', [], [], ''Edit'']\<rparr>]"
  "teamA (document (run [(11, Append ''A'' ''x'' ''y''), (12, Append ''B'' ''u'' ''v''),
                                (13, Edit ''11'' ''p'' ''q''), (14, Delete ''12'')]
                               (browser emptyStorage 1000 redBluePage)))
     = Some \<lparr>options = [[], ''Red'', ''Blue''], selected = ''Red''\<rparr>"
  "teamB (document (run [(11, Append ''A'' ''x'' ''y''), (12, Append ''B'' ''u'' ''v''),
                                (13, Edit ''11'' ''p'' ''q''), (14, Delete ''12'')]
                               (browser emptyStorage 1000 redBluePage)))
     = Some \<lparr>options = [[], ''Red'', ''Blue''], selected = ''Blue''\<rparr>"
  by (simp_all add: browser_def blankPage_def redBluePage_def openPopup_def handleSaveScore_def addNewScore_def
        createLogObject_def addScoreLog_def markDirty_def addScoreToTable_def appendChild_def
        setRows_def createScoreRow_def closePopup_def selectValue_def numberToString_def
        digitChar_def computeAbbaForIndex_def Let_def editScore_def getScoreLog_def
        updateExistingScore_def updateScoreLog_def updateScoreInTable_def handleDeleteScore_def
        removeScoreLog_def removeRow_def rebuildTableAndCounters_def updateAbbaColumn_def
        autoSave_fields split_def enumerate_eq_zip)

text \<open>
  A point for Red, a point for Blue, an edit of the first and the deletion of the
  second: one entry for Red is left.
\<close>

theorem rebuildTableAndCounters_counts_witness:
  "scoringTableBody (document (run [(11, Append ''A'' ''x'' ''y''), (12, Append ''B'' ''u'' ''v''),
                                     (13, Edit ''11'' ''p'' ''q''), (14, Delete ''12'')]
                                    (browser emptyStorage 1000 redBluePage))) \<noteq> None
   \<and> teamAScore (rebuildTableAndCounters (run [(11, Append ''A'' ''x'' ''y''), (12, Append ''B'' ''u'' ''v''),
                                     (13, Edit ''11'' ''p'' ''q''), (14, Delete ''12'')]
                                    (browser emptyStorage 1000 redBluePage))) = 1
   \<and> teamBScore (rebuildTableAndCounters (run [(11, Append ''A'' ''x'' ''y''), (12, Append ''B'' ''u'' ''v''),
                                     (13, Edit ''11'' ''p'' ''q''), (14, Delete ''12'')]
                                    (browser emptyStorage 1000 redBluePage))) = 0"
proof -
  have h: "scoringTableBody (document (run [(11, Append ''A'' ''x'' ''y''), (12, Append ''B'' ''u'' ''v''),
                                     (13, Edit ''11'' ''p'' ''q''), (14, Delete ''12'')]
                                    (browser emptyStorage 1000 redBluePage))) \<noteq> None"
    by (simp only: played_state) simp
  from rebuildTableAndCounters_counts[OF h] h show ?thesis
    by (simp only: played_state) (simp add: selectValue_def)
qed

text \<open>
  The claim as stated fails when both teams have the same name, as on a page where no
  team is selected yet: after one point for each side, both entries carry the empty
  name, the rebuild counts both for A, and \<open>teamBScore\<close> is 0 while two entries carry Team
  B's name.
\<close>

theorem rebuildTableAndCounters_same_name_counterexample:
  "teamBScore (rebuildTableAndCounters (run [(11, Append ''A'' ''x'' ''y''), (12, Append ''B'' ''u'' ''v'')]
                               (browser emptyStorage 1000 blankPage))) = 0
   \<and> length (filter (\<lambda>e. Team e = selectValue (teamB (document
               (run [(11, Append ''A'' ''x'' ''y''), (12, Append ''B'' ''u'' ''v'')]
                               (browser emptyStorage 1000 blankPage)))))
         (scoreLogs (dataManager (run [(11, Append ''A'' ''x'' ''y''), (12, Append ''B'' ''u'' ''v'')]
                               (browser emptyStorage 1000 blankPage))))) = 2"
proof -
  have h: "scoringTableBody (document (run [(11, Append ''A'' ''x'' ''y''), (12, Append ''B'' ''u'' ''v'')]
                               (browser emptyStorage 1000 blankPage))) \<noteq> None"
    by (simp only: unnamed_teams_state) (simp add: blankPage_def)
  from rebuildTableAndCounters_scores(2)[OF h] show ?thesis
    by (simp only: unnamed_teams_state) (simp add: blankPage_def selectValue_def)
qed

text \<open>
  C7. The claim fails on the code: the id of an entry is the clock's millisecond count
  alone, so two appends at the same reading of the clock get the same id.
\<close>

theorem same_millisecond_same_id:
  "map scoreID (scoreLogs (dataManager
      (run [(1700000000000, Append ''A'' ''x'' ''y''), (1700000000000, Append ''B'' ''u'' ''v'')]
           (browser emptyStorage 1000 redBluePage))))
     = [''1700000000000'', ''1700000000000'']
   \<and> \<not> distinct (map scoreID (scoreLogs (dataManager
      (run [(1700000000000, Append ''A'' ''x'' ''y''), (1700000000000, Append ''B'' ''u'' ''v'')]
           (browser emptyStorage 1000 redBluePage)))))"
  by (simp add: browser_def blankPage_def redBluePage_def openPopup_def handleSaveScore_def addNewScore_def
        createLogObject_def addScoreLog_def markDirty_def addScoreToTable_def appendChild_def
        setRows_def createScoreRow_def closePopup_def selectValue_def numberToString_def
        digitChar_def computeAbbaForIndex_def Let_def)

section \<open>Properties of the export\<close>

lemma rebuildTableAndCounters_empty:
  assumes "scoreLogs (dataManager s) = []" "scoringTableBody (document s) \<noteq> None"
  shows "rebuildTableAndCounters s
           = s\<lparr>teamAScore := 0, teamBScore := 0,
               document := (document s)\<lparr>scoringTableBody := Some []\<rparr>\<rparr>"
  using assms
  by (auto simp add: rebuildTableAndCounters_def updateAbbaColumn_def setRows_def Let_def enumerate_eq_zip)

lemma handleSubmitScore_effect:
  assumes "scoreLogs (dataManager w) \<noteq> []" and "scoringTableBody (document w) \<noteq> None"
  shows "fst (handleSubmitScore now w)
           = Some (csvOfLogs (selectValue (teamA (document w)) @ '' vs '' @ selectValue (teamB (document w)))
                             (scoreLogs (dataManager w)))
         \<and> scoreLogs (dataManager (snd (handleSubmitScore now w))) = []
         \<and> teamAScore (snd (handleSubmitScore now w)) = 0
         \<and> teamBScore (snd (handleSubmitScore now w)) = 0
         \<and> currentEditID (snd (handleSubmitScore now w)) = None
         \<and> document (snd (handleSubmitScore now w)) = (document w)\<lparr>scoringTableBody := Some []\<rparr>
         \<and> gameState (dataManager (snd (handleSubmitScore now w)))
             = (gameState (dataManager w))
                 \<lparr>gs_teamAScore := 0, gs_teamBScore := 0, gs_scoreLogs := [], gs_timestamp := now\<rparr>
         \<and> gs_teamAName (gameState (dataManager (snd (handleSubmitScore now w))))
             = gs_teamAName (gameState (dataManager w))
         \<and> gs_teamBName (gameState (dataManager (snd (handleSubmitScore now w))))
             = gs_teamBName (gameState (dataManager w))
         \<and> gs_teamAPlayers (gameState (dataManager (snd (handleSubmitScore now w))))
             = gs_teamAPlayers (gameState (dataManager w))
         \<and> gs_teamBPlayers (gameState (dataManager (snd (handleSubmitScore now w))))
             = gs_teamBPlayers (gameState (dataManager w))
         \<and> gs_gameTime (gameState (dataManager (snd (handleSubmitScore now w))))
             = gs_gameTime (gameState (dataManager w))"
proof -
  define c where "c = clearScoreLogs w"
  have c1: "scoreLogs (dataManager c) = []" "scoringTableBody (document c) \<noteq> None"
    using assms(2) by (simp_all add: c_def clearScoreLogs_def markDirty_def)
  note r = rebuildTableAndCounters_empty[OF c1]
  define w3 where "w3 = updateGameState
                          (\<lambda>gs. gs\<lparr>gs_teamAScore := 0, gs_teamBScore := 0, gs_scoreLogs := [],
                                    gs_timestamp := now\<rparr>)
                          ((rebuildTableAndCounters c)\<lparr>currentEditID := None\<rparr>)"
  have eq: "handleSubmitScore now w
              = (Some (csvOfLogs (selectValue (teamA (document w)) @ '' vs '' @ selectValue (teamB (document w)))
                             (scoreLogs (dataManager w))),
                 snd (saveCurrentState now w3))"
    using assms(1) by (simp add: handleSubmitScore_def Let_def w3_def c_def)
  have w3: "scoreLogs (dataManager w3) = []" "teamAScore w3 = 0" "teamBScore w3 = 0"
      "currentEditID w3 = None" "document w3 = (document w)\<lparr>scoringTableBody := Some []\<rparr>"
      "gameState (dataManager w3) = (gameState (dataManager w))
                 \<lparr>gs_teamAScore := 0, gs_teamBScore := 0, gs_scoreLogs := [], gs_timestamp := now\<rparr>"
    by (simp_all add: w3_def r updateGameState_def markDirty_def) (simp_all add: c_def clearScoreLogs_def markDirty_def)
  show ?thesis by (simp add: eq saveCurrentState_frame w3)
qed


text \<open>
  C9, as the code has it. An export of a non-empty log, on a page that has the table
  body, hands the CSV of the log to the download, empties the log and the table and sets
  both running scores to 0; in the game state it sets the two scores to 0, empties the
  log and renews the timestamp, and leaves everything else as it was: the team names,
  the rosters and the game time are not reset, \<open>resetGameState\<close> is not called, and the
  page keeps its selections.
\<close>

theorem handleSubmitScore_clears_log_and_scores_only:
  assumes "scoreLogs (dataManager w) \<noteq> []" and "scoringTableBody (document w) \<noteq> None"
  shows "fst (handleSubmitScore now w)
           = Some (csvOfLogs (selectValue (teamA (document w)) @ '' vs '' @ selectValue (teamB (document w)))
                             (scoreLogs (dataManager w)))
         \<and> scoreLogs (dataManager (snd (handleSubmitScore now w))) = []
         \<and> teamAScore (snd (handleSubmitScore now w)) = 0
         \<and> teamBScore (snd (handleSubmitScore now w)) = 0
         \<and> document (snd (handleSubmitScore now w)) = (document w)\<lparr>scoringTableBody := Some []\<rparr>
         \<and> gameState (dataManager (snd (handleSubmitScore now w)))
             = (gameState (dataManager w))
                 \<lparr>gs_teamAScore := 0, gs_teamBScore := 0, gs_scoreLogs := [], gs_timestamp := now\<rparr>
         \<and> gs_teamAName (gameState (dataManager (snd (handleSubmitScore now w))))
             = gs_teamAName (gameState (dataManager w))
         \<and> gs_teamBName (gameState (dataManager (snd (handleSubmitScore now w))))
             = gs_teamBName (gameState (dataManager w))
         \<and> gs_teamAPlayers (gameState (dataManager (snd (handleSubmitScore now w))))
             = gs_teamAPlayers (gameState (dataManager w))
         \<and> gs_teamBPlayers (gameState (dataManager (snd (handleSubmitScore now w))))
             = gs_teamBPlayers (gameState (dataManager w))
         \<and> gs_gameTime (gameState (dataManager (snd (handleSubmitScore now w))))
             = gs_gameTime (gameState (dataManager w))"
  using handleSubmitScore_effect[OF assms, of now] by simp

lemma autoSave_effect:
  assumes "\<not> isRestoring w"
  shows "gameState (dataManager (autoSave now w))
           = \<lparr>gs_teamAScore = teamAScore w,
              gs_teamBScore = teamBScore w,
              gs_teamAName = selectValue (teamA (document w)),
              gs_teamBName = selectValue (teamB (document w)),
              gs_teamAPlayers = textValue (teamAList (document w)),
              gs_teamBPlayers = textValue (teamBList (document w)),
              gs_gameTime = textValue (time (document w)),
              gs_scoreLogs = scoreLogs (dataManager w),
              gs_abbaStart = Some (if selectValue (abbaStartSelect (document w)) = [] then abbaStart w
                                   else selectValue (abbaStartSelect (document w))),
              gs_timestamp = now\<rparr>"
    and "scoreLogs (dataManager (autoSave now w)) = scoreLogs (dataManager w)"
    and "document (autoSave now w) = document w"
    and "teamAScore (autoSave now w) = teamAScore w"
    and "teamBScore (autoSave now w) = teamBScore w"
  using assms
  by (simp_all add: autoSave_def Let_def saveCurrentState_frame updateGameState_def markDirty_def)

lemma one_point_state:
  "scoreLogs (dataManager (run [(11, Append ''A'' ''x'' ''y'')] (browser emptyStorage 1000 redBluePage)))
     = [\<lparr>scoreID = ''11'', GameID = ''Red vs Blue'', Time = ''now'', Team = ''Red'', Score = ''x'', Assist = ''y''\<rparr>]"
  "document (run [(11, Append ''A'' ''x'' ''y'')] (browser emptyStorage 1000 redBluePage))
     = redBluePage\<lparr>scorePopup := Some (Some ''A''),
          scoringTableBody := Some [\<lparr>data_score_id = ''11'', cells = [''M'', ''x'', ''y'', ''1:0'', [], [], ''Edit'']\<rparr>]\<rparr>"
  "isRestoring (run [(11, Append ''A'' ''x'' ''y'')] (browser emptyStorage 1000 redBluePage)) = False"
  "teamAScore (run [(11, Append ''A'' ''x'' ''y'')] (browser emptyStorage 1000 redBluePage)) = 1"
  by (simp_all add: browser_def blankPage_def redBluePage_def openPopup_def handleSaveScore_def addNewScore_def
        createLogObject_def addScoreLog_def markDirty_def addScoreToTable_def appendChild_def
        setRows_def createScoreRow_def closePopup_def selectValue_def numberToString_def
        digitChar_def computeAbbaForIndex_def Let_def)

lemma one_point_saved:
  "scoreLogs (dataManager (autoSave 12 (run [(11, Append ''A'' ''x'' ''y'')] (browser emptyStorage 1000 redBluePage)))) \<noteq> []"
  "scoringTableBody (document (autoSave 12 (run [(11, Append ''A'' ''x'' ''y'')] (browser emptyStorage 1000 redBluePage)))) \<noteq> None"
  "gs_teamAName (gameState (dataManager (autoSave 12 (run [(11, Append ''A'' ''x'' ''y'')] (browser emptyStorage 1000 redBluePage))))) = ''Red''"
  "gs_teamAScore (gameState (dataManager (autoSave 12 (run [(11, Append ''A'' ''x'' ''y'')] (browser emptyStorage 1000 redBluePage))))) = 1"
proof -
  have r: "\<not> isRestoring (run [(11, Append ''A'' ''x'' ''y'')] (browser emptyStorage 1000 redBluePage))"
    by (simp only: one_point_state) simp
  note a = autoSave_effect[OF r, of 12]
  show "scoreLogs (dataManager (autoSave 12 (run [(11, Append ''A'' ''x'' ''y'')] (browser emptyStorage 1000 redBluePage)))) \<noteq> []"
    by (simp only: a one_point_state) simp
  show "scoringTableBody (document (autoSave 12 (run [(11, Append ''A'' ''x'' ''y'')] (browser emptyStorage 1000 redBluePage)))) \<noteq> None"
    by (simp only: a one_point_state) (simp add: redBluePage_def blankPage_def)
  show "gs_teamAName (gameState (dataManager (autoSave 12 (run [(11, Append ''A'' ''x'' ''y'')] (browser emptyStorage 1000 redBluePage))))) = ''Red''"
    by (simp only: a one_point_state) (simp add: redBluePage_def blankPage_def selectValue_def)
  show "gs_teamAScore (gameState (dataManager (autoSave 12 (run [(11, Append ''A'' ''x'' ''y'')] (browser emptyStorage 1000 redBluePage))))) = 1"
    by (simp only: a one_point_state) simp
qed

text \<open>One point for Red, saved, then exported.\<close>

theorem handleSubmitScore_clears_log_and_scores_only_witness:
  "scoreLogs (dataManager (autoSave 12 (run [(11, Append ''A'' ''x'' ''y'')] (browser emptyStorage 1000 redBluePage)))) \<noteq> []
   \<and> scoringTableBody (document (autoSave 12 (run [(11, Append ''A'' ''x'' ''y'')] (browser emptyStorage 1000 redBluePage)))) \<noteq> None
   \<and> scoreLogs (dataManager (snd (handleSubmitScore 13
        (autoSave 12 (run [(11, Append ''A'' ''x'' ''y'')] (browser emptyStorage 1000 redBluePage)))))) = []
   \<and> teamAScore (snd (handleSubmitScore 13
        (autoSave 12 (run [(11, Append ''A'' ''x'' ''y'')] (browser emptyStorage 1000 redBluePage))))) = 0"
  using handleSubmitScore_clears_log_and_scores_only[OF one_point_saved(1,2), of 13] one_point_saved(1,2)
  by blast

text \<open>
  The claim as stated fails there: after the export the game state still names Team A
  Red, where \<open>resetGameState\<close> would have left the empty name.
\<close>

theorem handleSubmitScore_keeps_team_names_counterexample:
  "fst (handleSubmitScore 13
        (autoSave 12 (run [(11, Append ''A'' ''x'' ''y'')] (browser emptyStorage 1000 redBluePage)))) \<noteq> None
   \<and> gs_teamAName (gameState (dataManager (snd (handleSubmitScore 13
        (autoSave 12 (run [(11, Append ''A'' ''x'' ''y'')] (browser emptyStorage 1000 redBluePage)))))))
      = ''Red''
   \<and> gs_teamAName (gameState (dataManager (resetGameState 13
        (autoSave 12 (run [(11, Append ''A'' ''x'' ''y'')] (browser emptyStorage 1000 redBluePage))))))
      = []"
proof -
  note e = handleSubmitScore_effect[OF one_point_saved(1,2), of 13]
  have "gs_teamAName (gameState (dataManager (resetGameState 13
        (autoSave 12 (run [(11, Append ''A'' ''x'' ''y'')] (browser emptyStorage 1000 redBluePage))))))
      = []"
    by (simp add: resetGameState_def markDirty_def defaultState_def del: run.simps)
  with e one_point_saved(3) show ?thesis by (simp del: run.simps)
qed

section \<open>Properties of startup\<close>

lemma newDataManager_loaded:
  assumes "ls_gameState (localStorage w) = Some snap"
  shows "gameState (dataManager (newDataManager now w)) = snap"
    and "scoreLogs (dataManager (newDataManager now w)) = gs_scoreLogs snap"
    and "document (newDataManager now w) = document w"
  using assms
  by (simp_all add: newDataManager_def loadAllData_def loadGameState_def loadTeamsData_def
        loadFromStorage_def removeItem_def Let_def split: option.splits)

lemma newScorekeeperApp_loaded:
  assumes "ls_gameState (localStorage w) = Some snap"
  shows "gameState (dataManager (newScorekeeperApp now w)) = snap"
    and "scoreLogs (dataManager (newScorekeeperApp now w)) = gs_scoreLogs snap"
    and "(document (newScorekeeperApp now w))\<lparr>time := t, timerDisplay := d\<rparr>
           = (document w)\<lparr>time := t, timerDisplay := d\<rparr>"
    and "teamAScore (newScorekeeperApp now w) = 0"
    and "teamBScore (newScorekeeperApp now w) = 0"
proof -
  have l: "ls_gameState (localStorage (w\<lparr>persistenceManager := \<lparr>lastSaveTime = 0\<rparr>\<rparr>)) = Some snap"
    using assms by simp
  note d = newDataManager_loaded[OF l, where now = now]
  show "gameState (dataManager (newScorekeeperApp now w)) = snap"
    by (simp add: newScorekeeperApp_def Let_def newTimerManager_frame d)
  show "scoreLogs (dataManager (newScorekeeperApp now w)) = gs_scoreLogs snap"
    by (simp add: newScorekeeperApp_def Let_def newTimerManager_frame d)
  show "(document (newScorekeeperApp now w))\<lparr>time := t, timerDisplay := d\<rparr>
           = (document w)\<lparr>time := t, timerDisplay := d\<rparr>"
    by (simp add: newScorekeeperApp_def Let_def newTimerManager_document d)
  show "teamAScore (newScorekeeperApp now w) = 0" "teamBScore (newScorekeeperApp now w) = 0"
    by (simp_all add: newScorekeeperApp_def Let_def)
qed

lemma handleSubmitScore_csv:
  "scoreLogs (dataManager w) \<noteq> [] \<Longrightarrow>
   fst (handleSubmitScore now w)
     = Some (join [CR, LF]
              (toCSVLine [''GameID'', ''Time'', ''Team'', ''Score'', ''Assist'']
               # map (\<lambda>log. toCSVLine
                        [if GameID log = []
                         then selectValue (teamA (document w)) @ '' vs '' @ selectValue (teamB (document w))
                         else GameID log,
                         Time log, Team log, Score log, Assist log])
                     (scoreLogs (dataManager w))))"
  by (simp add: handleSubmitScore_def csvOfLogs_def Let_def cong: if_cong)

lemma filter_length_pos: "list_ex P xs \<Longrightarrow> 0 < length (filter P xs)"
  by (induction xs) auto

lemma masked_document_selects:
  assumes "d1\<lparr>time := t, timerDisplay := d\<rparr> = d2\<lparr>time := t, timerDisplay := d\<rparr>"
  shows "teamA d1 = teamA d2" and "teamB d1 = teamB d2"
proof -
  have "teamA (d1\<lparr>time := t, timerDisplay := d\<rparr>) = teamA (d2\<lparr>time := t, timerDisplay := d\<rparr>)"
    using assms by simp
  then show "teamA d1 = teamA d2" by simp
  have "teamB (d1\<lparr>time := t, timerDisplay := d\<rparr>) = teamB (d2\<lparr>time := t, timerDisplay := d\<rparr>)"
    using assms by simp
  then show "teamB d1 = teamB d2" by simp
qed

text \<open>
  C10. The store holds a game state saved 24 hours ago or earlier. Startup shows no
  prompt and runs neither the restore nor the reset, whatever the answer would have
  been: the stored state and its log become the state and the log in memory while both
  running scores are 0, and the page is as it was except for the timer's display and
  the time field, which the timer writes. A later export hands to the download the
  header line followed by one line for each of those entries, in order, joined by
  CR LF. When the stored log is not empty the two scores do not add up to its length,
  and \<open>teamAScore\<close> differs from the number of entries of any team that has an entry.
  No age is checked when the state is loaded, so this holds for the states younger
  than seven days that the claim speaks of, and for older ones too.
\<close>

theorem stale_snapshot_loads_log_with_zero_scores:
  assumes "ls_gameState (localStorage w) = Some snap"
      and "24 * 60 * 60 * 1000 \<le> now - gs_timestamp snap"
  shows "scoreLogs (dataManager (startup now answer w)) = gs_scoreLogs snap
         \<and> gameState (dataManager (startup now answer w)) = snap
         \<and> teamAScore (startup now answer w) = 0
         \<and> teamBScore (startup now answer w) = 0
         \<and> (document (startup now answer w))
              \<lparr>time := time (document w), timerDisplay := timerDisplay (document w)\<rparr> = document w
         \<and> (gs_scoreLogs snap \<noteq> [] \<longrightarrow>
              fst (handleSubmitScore later (startup now answer w))
                = Some (join [CR, LF]
                         (toCSVLine [''GameID'', ''Time'', ''Team'', ''Score'', ''Assist'']
                          # map (\<lambda>log. toCSVLine
                                   [if GameID log = []
                                    then selectValue (teamA (document w)) @ '' vs ''
                                         @ selectValue (teamB (document w))
                                    else GameID log,
                                    Time log, Team log, Score log, Assist log])
                                (gs_scoreLogs snap)))
              \<and> teamAScore (startup now answer w) + teamBScore (startup now answer w)
                  \<noteq> length (scoreLogs (dataManager (startup now answer w))))
         \<and> (list_ex (\<lambda>e. Team e = a) (gs_scoreLogs snap) \<longrightarrow>
              teamAScore (startup now answer w)
                \<noteq> length (filter (\<lambda>e. Team e = a) (scoreLogs (dataManager (startup now answer w)))))"
proof -
  note app = newScorekeeperApp_loaded[OF assms(1), where now = now]
  have same: "startup now answer w = newScorekeeperApp now w"
    using assms(2) by (simp add: startup_def checkAndRestoreState_def Let_def app)
  have logs: "scoreLogs (dataManager (startup now answer w)) = gs_scoreLogs snap"
    and state: "gameState (dataManager (startup now answer w)) = snap"
    and zeroA: "teamAScore (startup now answer w) = 0"
    and zeroB: "teamBScore (startup now answer w) = 0"
    by (simp_all add: same app)
  have masked: "(document (startup now answer w))
                  \<lparr>time := time (document w), timerDisplay := timerDisplay (document w)\<rparr>
                = (document w)\<lparr>time := time (document w), timerDisplay := timerDisplay (document w)\<rparr>"
    unfolding same by (rule app(3))
  have page: "(document (startup now answer w))
              \<lparr>time := time (document w), timerDisplay := timerDisplay (document w)\<rparr> = document w"
    using masked by simp
  note sel = masked_document_selects[OF masked]
  have csv: "fst (handleSubmitScore later (startup now answer w))
                = Some (join [CR, LF]
                         (toCSVLine [''GameID'', ''Time'', ''Team'', ''Score'', ''Assist'']
                          # map (\<lambda>log. toCSVLine
                                   [if GameID log = []
                                    then selectValue (teamA (document w)) @ '' vs ''
                                         @ selectValue (teamB (document w))
                                    else GameID log,
                                    Time log, Team log, Score log, Assist log])
                                (gs_scoreLogs snap)))"
    if "gs_scoreLogs snap \<noteq> []"
    using that handleSubmitScore_csv[of "startup now answer w" later]
    by (simp add: logs sel cong: if_cong)
  have sum: "teamAScore (startup now answer w) + teamBScore (startup now answer w)
                  \<noteq> length (scoreLogs (dataManager (startup now answer w)))"
    if "gs_scoreLogs snap \<noteq> []"
    using that by (simp add: logs zeroA zeroB)
  have inv: "teamAScore (startup now answer w)
                \<noteq> length (filter (\<lambda>e. Team e = a) (scoreLogs (dataManager (startup now answer w))))"
    if "list_ex (\<lambda>e. Team e = a) (gs_scoreLogs snap)"
    using filter_length_pos[OF that] by (simp add: logs zeroA)
  from logs state zeroA zeroB page csv sum inv show ?thesis by blast
qed

text \<open>
  A state saved at 1000, found again a little over two days later on a page with no
  team selected; the export then writes the header and the line of the old entry.
\<close>

theorem stale_snapshot_loads_log_with_zero_scores_witness:
  "ls_gameState (localStorage (browser (emptyStorage\<lparr>ls_gameState := Some oldSnapshot\<rparr>) 1000 blankPage))
     = Some oldSnapshot
   \<and> 24 * 60 * 60 * 1000 \<le> 200000000 - gs_timestamp oldSnapshot
   \<and> 200000000 - gs_timestamp oldSnapshot < 7 * 24 * 60 * 60 * 1000
   \<and> gs_scoreLogs oldSnapshot \<noteq> []
   \<and> list_ex (\<lambda>e. Team e = ''Red'') (gs_scoreLogs oldSnapshot)
   \<and> scoreLogs (dataManager (startup 200000000 True
        (browser (emptyStorage\<lparr>ls_gameState := Some oldSnapshot\<rparr>) 1000 blankPage)))
       = [\<lparr>scoreID = ''1000'', GameID = ''Red vs Blue'', Time = ''then'', Team = ''Red'',
           Score = ''Ann'', Assist = ''N/A''\<rparr>]
   \<and> teamAScore (startup 200000000 True
        (browser (emptyStorage\<lparr>ls_gameState := Some oldSnapshot\<rparr>) 1000 blankPage)) = 0
   \<and> teamBScore (startup 200000000 True
        (browser (emptyStorage\<lparr>ls_gameState := Some oldSnapshot\<rparr>) 1000 blankPage)) = 0
   \<and> fst (handleSubmitScore 200000500 (startup 200000000 True
        (browser (emptyStorage\<lparr>ls_gameState := Some oldSnapshot\<rparr>) 1000 blankPage)))
       = Some (''GameID,Time,Team,Score,Assist'' @ [CR, LF] @ ''Red vs Blue,then,Red,Ann,N/A'')
   \<and> teamAScore (startup 200000000 True
        (browser (emptyStorage\<lparr>ls_gameState := Some oldSnapshot\<rparr>) 1000 blankPage))
       \<noteq> length (filter (\<lambda>e. Team e = ''Red'')
            (scoreLogs (dataManager (startup 200000000 True
               (browser (emptyStorage\<lparr>ls_gameState := Some oldSnapshot\<rparr>) 1000 blankPage)))))"
proof -
  have h1: "ls_gameState (localStorage (browser (emptyStorage\<lparr>ls_gameState := Some oldSnapshot\<rparr>) 1000 blankPage))
     = Some oldSnapshot"
    by (simp add: browser_def)
  have h2: "24 * 60 * 60 * 1000 \<le> 200000000 - gs_timestamp oldSnapshot"
    by (simp add: oldSnapshot_def)
  have h3: "200000000 - gs_timestamp oldSnapshot < 7 * 24 * 60 * 60 * 1000"
    by (simp add: oldSnapshot_def)
  have h4: "gs_scoreLogs oldSnapshot \<noteq> []"
    by (simp add: oldSnapshot_def)
  have h5: "list_ex (\<lambda>e. Team e = ''Red'') (gs_scoreLogs oldSnapshot)"
    by (simp add: oldSnapshot_def)
  have logs: "gs_scoreLogs oldSnapshot
                = [\<lparr>scoreID = ''1000'', GameID = ''Red vs Blue'', Time = ''then'', Team = ''Red'',
                    Score = ''Ann'', Assist = ''N/A''\<rparr>]"
    by (simp add: oldSnapshot_def)
  have written: "join [CR, LF]
                (toCSVLine [''GameID'', ''Time'', ''Team'', ''Score'', ''Assist'']
                 # map (\<lambda>log. toCSVLine
                          [if GameID log = []
                           then selectValue (teamA (document
                                  (browser (emptyStorage\<lparr>ls_gameState := Some oldSnapshot\<rparr>) 1000 blankPage)))
                                @ '' vs ''
                                @ selectValue (teamB (document
                                  (browser (emptyStorage\<lparr>ls_gameState := Some oldSnapshot\<rparr>) 1000 blankPage)))
                           else GameID log,
                           Time log, Team log, Score log, Assist log])
                       (gs_scoreLogs oldSnapshot))
              = ''GameID,Time,Team,Score,Assist'' @ [CR, LF] @ ''Red vs Blue,then,Red,Ann,N/A''"
    by (simp add: logs toCSVLine_def csvField_def needsQuoting_def)
  note t = stale_snapshot_loads_log_with_zero_scores[OF h1 h2,
             where answer = True and a = "''Red''" and later = 200000500]
  from t h4 have e: "fst (handleSubmitScore 200000500 (startup 200000000 True
        (browser (emptyStorage\<lparr>ls_gameState := Some oldSnapshot\<rparr>) 1000 blankPage)))
       = Some (join [CR, LF]
                (toCSVLine [''GameID'', ''Time'', ''Team'', ''Score'', ''Assist'']
                 # map (\<lambda>log. toCSVLine
                          [if GameID log = []
                           then selectValue (teamA (document
                                  (browser (emptyStorage\<lparr>ls_gameState := Some oldSnapshot\<rparr>) 1000 blankPage)))
                                @ '' vs ''
                                @ selectValue (teamB (document
                                  (browser (emptyStorage\<lparr>ls_gameState := Some oldSnapshot\<rparr>) 1000 blankPage)))
                           else GameID log,
                           Time log, Team log, Score log, Assist log])
                       (gs_scoreLogs oldSnapshot)))"
    by blast
  have l: "scoreLogs (dataManager (startup 200000000 True
        (browser (emptyStorage\<lparr>ls_gameState := Some oldSnapshot\<rparr>) 1000 blankPage)))
       = [\<lparr>scoreID = ''1000'', GameID = ''Red vs Blue'', Time = ''then'', Team = ''Red'',
           Score = ''Ann'', Assist = ''N/A''\<rparr>]"
    using t logs by simp
  have x: "fst (handleSubmitScore 200000500 (startup 200000000 True
        (browser (emptyStorage\<lparr>ls_gameState := Some oldSnapshot\<rparr>) 1000 blankPage)))
       = Some (''GameID,Time,Team,Score,Assist'' @ [CR, LF] @ ''Red vs Blue,then,Red,Ann,N/A'')"
    using e written by simp
  from t h1 h2 h3 h4 h5 l x show ?thesis by blast
qed

end
